theory Spec2Isabelle
  imports Complex_Main
begin

section \<open>JavaScript values and built-ins\<close>

text \<open>
  The relay service exists in two files, \<^verbatim>\<open>src/server.js\<close> (definitions prefixed
  \<open>server_\<close>) and \<^verbatim>\<open>src/unnamed/part_000\<close> (definitions prefixed \<open>part_\<close>).
  Both keep two global \<^verbatim>\<open>Map\<close>s and talk JSON, so the values that flow through them are
  JavaScript values. A number is the exact value of its finite double; only its
  truthiness is ever inspected.
\<close>

datatype jsval =
    JUndefined
  | JNull
  | JBool bool
  | JNum rat
  | JStr string
  | JArr "jsval list"
  | JObj "(string \<times> jsval) list"

text \<open>\<^verbatim>\<open>!x\<close> is \<open>\<not> truthy x\<close>.\<close>

fun truthy :: "jsval \<Rightarrow> bool" where
  "truthy JUndefined = False"
| "truthy JNull = False"
| "truthy (JBool b) = b"
| "truthy (JNum n) = (n \<noteq> 0)"
| "truthy (JStr s) = (s \<noteq> [])"
| "truthy (JArr xs) = True"
| "truthy (JObj kvs) = True"

text \<open>\<^verbatim>\<open>a || b\<close>\<close>

definition js_or :: "jsval \<Rightarrow> jsval \<Rightarrow> jsval" where
  "js_or a b = (if truthy a then a else b)"

text \<open>
  \<^verbatim>\<open>x.k\<close> for the property names the handlers read (\<^verbatim>\<open>choices\<close>, \<^verbatim>\<open>message\<close>,
  \<^verbatim>\<open>content\<close>, \<^verbatim>\<open>error\<close>), none of which is inherited from a prototype: reading a
  property of \<^verbatim>\<open>null\<close> or \<^verbatim>\<open>undefined\<close> throws a TypeError (\<open>Inl\<close> carries
  \<^verbatim>\<open>err.message\<close>), an object yields its own property, and every other value yields
  \<^verbatim>\<open>undefined\<close>.
\<close>

fun member :: "jsval \<Rightarrow> string \<Rightarrow> string + jsval" where
  "member JUndefined k =
     Inl (''Cannot read properties of undefined (reading '' @ [CHR 0x27] @ k @ [CHR 0x27] @ '')'')"
| "member JNull k =
     Inl (''Cannot read properties of null (reading '' @ [CHR 0x27] @ k @ [CHR 0x27] @ '')'')"
| "member (JObj kvs) k = Inr (case map_of kvs k of Some v \<Rightarrow> v | None \<Rightarrow> JUndefined)"
| "member (JBool b) k = Inr JUndefined"
| "member (JNum n) k = Inr JUndefined"
| "member (JStr s) k = Inr JUndefined"
| "member (JArr xs) k = Inr JUndefined"

text \<open>\<^verbatim>\<open>x?.k\<close>: as \<^verbatim>\<open>x.k\<close>, but \<^verbatim>\<open>undefined\<close> on a nullish receiver.\<close>

fun opt_member :: "jsval \<Rightarrow> string \<Rightarrow> jsval" where
  "opt_member (JObj kvs) k = (case map_of kvs k of Some v \<Rightarrow> v | None \<Rightarrow> JUndefined)"
| "opt_member JUndefined k = JUndefined"
| "opt_member JNull k = JUndefined"
| "opt_member (JBool b) k = JUndefined"
| "opt_member (JNum n) k = JUndefined"
| "opt_member (JStr s) k = JUndefined"
| "opt_member (JArr xs) k = JUndefined"

text \<open>
  \<^verbatim>\<open>x?.[0]\<close>: the first element of an array, the first character of a string, the
  property \<^verbatim>\<open>"0"\<close> of an object.
\<close>

fun opt_index0 :: "jsval \<Rightarrow> jsval" where
  "opt_index0 (JArr xs) = (case xs of [] \<Rightarrow> JUndefined | x # _ \<Rightarrow> x)"
| "opt_index0 (JStr s) = (case s of [] \<Rightarrow> JUndefined | c # _ \<Rightarrow> JStr [c])"
| "opt_index0 (JObj kvs) = (case map_of kvs ''0'' of Some v \<Rightarrow> v | None \<Rightarrow> JUndefined)"
| "opt_index0 JUndefined = JUndefined"
| "opt_index0 JNull = JUndefined"
| "opt_index0 (JBool b) = JUndefined"
| "opt_index0 (JNum n) = JUndefined"

text \<open>
  \<^verbatim>\<open>data.choices?.[0]?.message?.content\<close>, the expression both files use to read the
  completion text out of the parsed upstream payload.
\<close>

definition completion :: "jsval \<Rightarrow> string + jsval" where
  "completion data =
     (case member data ''choices'' of
        Inl e \<Rightarrow> Inl e
      | Inr choices \<Rightarrow> Inr (opt_member (opt_member (opt_index0 choices) ''message'') ''content''))"

text \<open>
  Built-ins of the runtime that the handlers call and the repository does not define:
  \<^verbatim>\<open>JSON.parse\<close> (\<open>Inl\<close> is the message of the SyntaxError it throws), the string
  conversion of template literals and of \<^verbatim>\<open>new Error(x)\<close>, and
  \<^verbatim>\<open>Date.prototype.toISOString\<close> on a millisecond clock value.
\<close>

record builtins =
  JSON_parse :: "string \<Rightarrow> string + jsval"
  ToString :: "jsval \<Rightarrow> string"
  toISOString :: "int \<Rightarrow> string"

subsection \<open>Map\<close>

text \<open>
  A JavaScript \<^verbatim>\<open>Map\<close> keeps its entries in insertion order: \<^verbatim>\<open>set\<close> overwrites the
  value of a present key in place and appends an absent one, \<^verbatim>\<open>delete\<close> removes the
  entry.
\<close>

definition Map_get :: "('k \<times> 'v) list \<Rightarrow> 'k \<Rightarrow> 'v option" where
  "Map_get m k = map_of m k"

fun Map_set :: "'k \<Rightarrow> 'v \<Rightarrow> ('k \<times> 'v) list \<Rightarrow> ('k \<times> 'v) list" where
  "Map_set k v [] = [(k, v)]"
| "Map_set k v (p # ps) = (if fst p = k then (k, v) # ps else p # Map_set k v ps)"

definition Map_delete :: "'k \<Rightarrow> ('k \<times> 'v) list \<Rightarrow> ('k \<times> 'v) list" where
  "Map_delete k m = filter (\<lambda>p. fst p \<noteq> k) m"

subsection \<open>Array.prototype.splice\<close>

text \<open>\<^verbatim>\<open>xs.splice(start, n)\<close> removes \<open>n\<close> elements from index \<open>start\<close> on.\<close>

definition splice :: "nat \<Rightarrow> nat \<Rightarrow> 'a list \<Rightarrow> 'a list" where
  "splice start n xs = take start xs @ drop (start + n) xs"

section \<open>Data model\<close>

record chat_message =
  role :: string
  content :: jsval

text \<open>
  The body of \<^verbatim>\<open>POST /api/chat\<close>, \<^verbatim>\<open>{message, sessionId?: string}\<close>; a missing
  \<^verbatim>\<open>message\<close> is \<open>JUndefined\<close>, a missing \<^verbatim>\<open>sessionId\<close> is \<open>None\<close>.
\<close>

record chat_request =
  message :: jsval
  sessionId :: "string option"

record response =
  status :: int
  body :: jsval

text \<open>What the handler sends upstream (of the request body, the model and the messages).\<close>

record upstream_request =
  model :: string
  messages :: "chat_message list"

text \<open>
  What \<^verbatim>\<open>await fetch(...)\<close> followed by \<^verbatim>\<open>await response.text()\<close> gives back: a
  rejection with \<^verbatim>\<open>err.message\<close>, or a status and a body text.
\<close>

datatype fetch_result = Rejected string | Response int string

definition response_ok :: "int \<Rightarrow> bool" where
  "response_ok st = (200 \<le> st \<and> st \<le> 299)"

text \<open>
  For \<^verbatim>\<open>/api/test-key\<close>: \<^verbatim>\<open>await fetch(...)\<close> followed by \<^verbatim>\<open>await r.json()\<close>.
\<close>

datatype json_result = JsonRejected string | JsonResponse int jsval

text \<open>
  The process state. \<^verbatim>\<open>conversationHistories\<close> maps a session id to a reference to an
  array object; \<open>arrays\<close> is the store of array objects, a reference being an index
  into it. A handler suspended at \<^verbatim>\<open>await fetch\<close> keeps its \<^verbatim>\<open>history\<close> reference:
  \<open>suspended\<close> lists the references held by the handlers waiting for the upstream.
\<close>

record state =
  conversationHistories :: "(string \<times> nat) list"
  requestTimes :: "(string \<times> int) list"
  arrays :: "chat_message list list"
  suspended :: "nat list"

definition init :: state where
  "init = \<lparr>conversationHistories = [], requestTimes = [], arrays = [], suspended = []\<rparr>"

text \<open>The transcript of a session: the array its map entry refers to.\<close>

definition transcript :: "state \<Rightarrow> string \<Rightarrow> chat_message list option" where
  "transcript s sid =
     (case Map_get (conversationHistories s) sid of
        None \<Rightarrow> None
      | Some a \<Rightarrow> if a < length (arrays s) then Some (arrays s ! a) else None)"

text \<open>\<^verbatim>\<open>history.push(m)\<close> on the array object at reference \<open>a\<close>.\<close>

definition push :: "nat \<Rightarrow> chat_message \<Rightarrow> state \<Rightarrow> state" where
  "push a m s = s\<lparr>arrays := (arrays s)[a := (arrays s ! a) @ [m]]\<rparr>"

text \<open>\<^verbatim>\<open>if (history.length > 21) history.splice(1, history.length - 21)\<close>\<close>

definition trim :: "nat \<Rightarrow> state \<Rightarrow> state" where
  "trim a s =
     (let history = arrays s ! a in
      if length history > 21
      then s\<lparr>arrays := (arrays s)[a := splice 1 (length history - 21) history]\<rparr>
      else s)"

text \<open>The synchronous part of the chat handler ends in a response or at \<^verbatim>\<open>await fetch\<close>.\<close>

datatype begin_result = Respond response | Await nat upstream_request

section \<open>src/server.js\<close>

definition server_MODEL :: string where
  "server_MODEL = ''nvidia/nemotron-nano-9b-v2:free''"

definition server_SYSTEM_PROMPT :: string where
  "server_SYSTEM_PROMPT =
     ''You are a helpful, friendly, and knowledgeable AI assistant. '' @ [CHR 0x0A] @
     ''You provide clear, concise, and accurate responses. You'' @ [CHR 0x27] @
     ''re conversational but professional.'' @ [CHR 0x0A] @
     ''You can help with a wide variety of topics including general knowledge, coding, writing, analysis, and more.''"

definition server_MIN_REQUEST_INTERVAL :: int where
  "server_MIN_REQUEST_INTERVAL = 1000"

text \<open>
  \<^verbatim>\<open>app.post('/api/chat')\<close> up to \<^verbatim>\<open>await fetch\<close> (lines 36 to 74); \<open>now\<close> is what
  \<^verbatim>\<open>Date.now()\<close> returns. The three calls \<^verbatim>\<open>has\<close>, \<^verbatim>\<open>set\<close>, \<^verbatim>\<open>get\<close> on
  \<^verbatim>\<open>conversationHistories\<close> are one case distinction: an absent session gets a fresh
  array holding the system message, and \<^verbatim>\<open>history\<close> is the reference stored for the
  session.
\<close>

definition server_chat_begin ::
  "builtins \<Rightarrow> chat_request \<Rightarrow> int \<Rightarrow> state \<Rightarrow> begin_result \<times> state" where
  "server_chat_begin js req now s =
     (let message = message req;
          sessionId = (case sessionId req of None \<Rightarrow> ''default'' | Some i \<Rightarrow> i)
      in
      if \<not> truthy message
      then (Respond \<lparr>status = 400, body = JObj [(''error'', JStr ''Message is required'')]\<rparr>, s)
      else
        let lastRequest = (case Map_get (requestTimes s) sessionId of
                             None \<Rightarrow> 0
                           | Some t \<Rightarrow> if t \<noteq> 0 then t else 0);
            elapsed = now - lastRequest
        in
        if elapsed < server_MIN_REQUEST_INTERVAL
        then
          (let wait = \<lceil>(of_int (server_MIN_REQUEST_INTERVAL - elapsed) :: rat) / 1000\<rceil>
           in (Respond \<lparr>status = 429,
                        body = JObj [(''error'', JStr (''Please wait '' @ ToString js (JNum (of_int wait))
                                                      @ ''s before next message.''))]\<rparr>, s))
        else
          let s1 = s\<lparr>requestTimes := Map_set sessionId now (requestTimes s)\<rparr>;
              (history, s2) =
                (case Map_get (conversationHistories s1) sessionId of
                   None \<Rightarrow>
                     (length (arrays s1),
                      s1\<lparr>arrays := arrays s1 @ [[\<lparr>role = ''system'', content = JStr server_SYSTEM_PROMPT\<rparr>]],
                         conversationHistories :=
                           Map_set sessionId (length (arrays s1)) (conversationHistories s1)\<rparr>)
                 | Some a \<Rightarrow> (a, s1));
              s3 = push history \<lparr>role = ''user'', content = message\<rparr> s2;
              s4 = trim history s3
          in (Await history \<lparr>model = server_MODEL, messages = arrays s4 ! history\<rparr>, s4))"

text \<open>
  The rest of the \<^verbatim>\<open>try\<close> block (lines 76 to 93), entered when the upstream call
  settles; \<open>Inl\<close> is the \<^verbatim>\<open>err.message\<close> of what it throws. \<open>now\<close> is the clock read
  by \<^verbatim>\<open>new Date()\<close>.
\<close>

definition server_chat_try ::
  "builtins \<Rightarrow> nat \<Rightarrow> fetch_result \<Rightarrow> int \<Rightarrow> state \<Rightarrow> string + (response \<times> state)" where
  "server_chat_try js history fr now s =
     (case fr of
        Rejected e \<Rightarrow> Inl e
      | Response st responseText \<Rightarrow>
          if \<not> response_ok st
          then
            (case JSON_parse js responseText of
               Inl _ \<Rightarrow> Inl (''HTTP '' @ ToString js (JNum (of_int st)) @ '': '' @ responseText)
             | Inr errorData \<Rightarrow>
                 (case member errorData ''error'' of
                    Inl e \<Rightarrow> Inl e
                  | Inr err \<Rightarrow>
                      if truthy (opt_member err ''message'')
                      then Inl (ToString js (opt_member err ''message''))
                      else
                        (case member errorData ''message'' of
                           Inl e \<Rightarrow> Inl e
                         | Inr m \<Rightarrow> Inl (ToString js (js_or m (JStr ''Unknown error''))))))
          else
            (case JSON_parse js responseText of
               Inl e \<Rightarrow> Inl e
             | Inr data \<Rightarrow>
                 (case completion data of
                    Inl e \<Rightarrow> Inl e
                  | Inr reply \<Rightarrow>
                      if \<not> truthy reply
                      then Inl ''Invalid response from OpenRouter''
                      else
                        Inr (\<lparr>status = 200,
                              body = JObj [(''reply'', reply), (''model'', JStr server_MODEL),
                                           (''timestamp'', JStr (toISOString js now))]\<rparr>,
                             push history \<lparr>role = ''assistant'', content = reply\<rparr> s))))"

text \<open>The \<^verbatim>\<open>catch\<close> (lines 94 to 97): nothing was mutated before a throw.\<close>

definition server_chat_resume ::
  "builtins \<Rightarrow> nat \<Rightarrow> fetch_result \<Rightarrow> int \<Rightarrow> state \<Rightarrow> response \<times> state" where
  "server_chat_resume js history fr now s =
     (case server_chat_try js history fr now s of
        Inr r \<Rightarrow> r
      | Inl e \<Rightarrow> (\<lparr>status = 500, body = JObj [(''error'', JStr e)]\<rparr>, s))"

text \<open>\<^verbatim>\<open>app.post('/api/clear')\<close>; the argument is \<^verbatim>\<open>req.body.sessionId\<close>.\<close>

definition server_clear :: "string option \<Rightarrow> state \<Rightarrow> response \<times> state" where
  "server_clear sid s =
     (let sessionId = (case sid of None \<Rightarrow> ''default'' | Some i \<Rightarrow> i)
      in (\<lparr>status = 200, body = JObj [(''message'', JStr ''Conversation cleared'')]\<rparr>,
          s\<lparr>conversationHistories := Map_delete sessionId (conversationHistories s),
            requestTimes := Map_delete sessionId (requestTimes s)\<rparr>))"

text \<open>\<^verbatim>\<open>app.get('/api/health')\<close>; the argument is \<^verbatim>\<open>OPENROUTER_API_KEY\<close>.\<close>

definition server_health :: "string option \<Rightarrow> response" where
  "server_health key =
     \<lparr>status = 200,
      body = JObj [(''status'', JStr ''ok''),
                   (''openrouterConfigured'', JBool (case key of None \<Rightarrow> False | Some k \<Rightarrow> k \<noteq> [])),
                   (''model'', JStr server_MODEL),
                   (''apiKey'', JStr (case key of
                                        None \<Rightarrow> ''Not set''
                                      | Some k \<Rightarrow> if k \<noteq> [] then take 8 k @ ''...'' else ''Not set''))]\<rparr>"

text \<open>\<^verbatim>\<open>app.get('/api/test-key')\<close>, from the point where the upstream call settles.\<close>

definition server_test_key :: "json_result \<Rightarrow> response" where
  "server_test_key r =
     (case r of
        JsonRejected e \<Rightarrow> \<lparr>status = 500, body = JObj [(''error'', JStr e)]\<rparr>
      | JsonResponse st data \<Rightarrow>
          \<lparr>status = 200,
           body = JObj [(''valid'', JBool (response_ok st)), (''status'', JNum (of_int st)),
                        (''data'', data)]\<rparr>)"

text \<open>
  The \<^verbatim>\<open>setInterval\<close> callback; \<open>now\<close> is what \<^verbatim>\<open>Date.now()\<close> returns. The loop
  visits the entries of \<^verbatim>\<open>requestTimes\<close> in insertion order and deletes only the entry
  it is visiting, so it visits every entry present at its start.
\<close>

definition server_reaper :: "int \<Rightarrow> state \<Rightarrow> state" where
  "server_reaper now s =
     (let cutoff = now - 3600000
      in fold (\<lambda>(id, t) s'.
                 if t < cutoff
                 then s'\<lparr>requestTimes := Map_delete id (requestTimes s'),
                         conversationHistories := Map_delete id (conversationHistories s')\<rparr>
                 else s')
              (requestTimes s) s)"

section \<open>src/unnamed/part_000\<close>

definition part_MODEL :: string where
  "part_MODEL = ''nvidia/nemotron-nano-9b-v2:free''"

definition part_SYSTEM_PROMPT :: string where
  "part_SYSTEM_PROMPT =
     ''You are a helpful, friendly, and knowledgeable AI assistant. '' @ [CHR 0x0A] @
     ''You provide clear, concise, and accurate responses. You'' @ [CHR 0x27] @
     ''re conversational but professional.''"

definition part_MIN_REQUEST_INTERVAL :: int where
  "part_MIN_REQUEST_INTERVAL = 1000"

text \<open>\<^verbatim>\<open>app.post('/api/chat')\<close> up to \<^verbatim>\<open>await fetch\<close> (lines 36 to 74).\<close>

definition part_chat_begin :: "chat_request \<Rightarrow> int \<Rightarrow> state \<Rightarrow> begin_result \<times> state" where
  "part_chat_begin req now s =
     (let message = message req;
          sessionId = (case sessionId req of None \<Rightarrow> ''default'' | Some i \<Rightarrow> i)
      in
      if \<not> truthy message
      then (Respond \<lparr>status = 400, body = JObj [(''error'', JStr ''Message is required'')]\<rparr>, s)
      else
        let last = (case Map_get (requestTimes s) sessionId of
                      None \<Rightarrow> 0
                    | Some t \<Rightarrow> if t \<noteq> 0 then t else 0)
        in
        if now - last < part_MIN_REQUEST_INTERVAL
        then (Respond \<lparr>status = 429,
                       body = JObj [(''error'', JStr ''Please wait 1s between messages.'')]\<rparr>, s)
        else
          let s1 = s\<lparr>requestTimes := Map_set sessionId now (requestTimes s)\<rparr>;
              (history, s2) =
                (case Map_get (conversationHistories s1) sessionId of
                   None \<Rightarrow>
                     (length (arrays s1),
                      s1\<lparr>arrays := arrays s1 @ [[\<lparr>role = ''system'', content = JStr part_SYSTEM_PROMPT\<rparr>]],
                         conversationHistories :=
                           Map_set sessionId (length (arrays s1)) (conversationHistories s1)\<rparr>)
                 | Some a \<Rightarrow> (a, s1));
              s3 = push history \<lparr>role = ''user'', content = message\<rparr> s2;
              s4 = trim history s3
          in (Await history \<lparr>model = part_MODEL, messages = arrays s4 ! history\<rparr>, s4))"

text \<open>
  The rest of the handler (lines 76 to 90). A non-success status is answered from inside
  the \<^verbatim>\<open>try\<close> block with the upstream's status and body text; a missing completion
  text is replaced by a fixed reply.
\<close>

definition part_chat_resume ::
  "builtins \<Rightarrow> nat \<Rightarrow> fetch_result \<Rightarrow> int \<Rightarrow> state \<Rightarrow> response \<times> state" where
  "part_chat_resume js history fr now s =
     (case fr of
        Rejected e \<Rightarrow> (\<lparr>status = 500, body = JObj [(''error'', JStr e)]\<rparr>, s)
      | Response st text \<Rightarrow>
          if \<not> response_ok st
          then (\<lparr>status = st, body = JObj [(''error'', JStr text)]\<rparr>, s)
          else
            (case JSON_parse js text of
               Inl e \<Rightarrow> (\<lparr>status = 500, body = JObj [(''error'', JStr e)]\<rparr>, s)
             | Inr data \<Rightarrow>
                 (case completion data of
                    Inl e \<Rightarrow> (\<lparr>status = 500, body = JObj [(''error'', JStr e)]\<rparr>, s)
                  | Inr c \<Rightarrow>
                      (let reply = js_or c (JStr ''No response from model.'')
                       in (\<lparr>status = 200,
                            body = JObj [(''reply'', reply), (''model'', JStr part_MODEL),
                                         (''timestamp'', JStr (toISOString js now))]\<rparr>,
                           push history \<lparr>role = ''assistant'', content = reply\<rparr> s)))))"

definition part_clear :: "string option \<Rightarrow> state \<Rightarrow> response \<times> state" where
  "part_clear sid s =
     (let sessionId = (case sid of None \<Rightarrow> ''default'' | Some i \<Rightarrow> i)
      in (\<lparr>status = 200, body = JObj [(''message'', JStr ''Conversation cleared'')]\<rparr>,
          s\<lparr>conversationHistories := Map_delete sessionId (conversationHistories s),
            requestTimes := Map_delete sessionId (requestTimes s)\<rparr>))"

definition part_health :: "string option \<Rightarrow> response" where
  "part_health key =
     \<lparr>status = 200,
      body = JObj [(''status'', JStr ''ok''),
                   (''message'', JStr ''Chatbot is running''),
                   (''model'', JStr part_MODEL),
                   (''openrouterConfigured'', JBool (case key of None \<Rightarrow> False | Some k \<Rightarrow> k \<noteq> [])),
                   (''apiKeyPrefix'', JStr (case key of
                                              None \<Rightarrow> ''Not set''
                                            | Some k \<Rightarrow> if k \<noteq> [] then take 8 k @ ''...'' else ''Not set''))]\<rparr>"

definition part_test_key :: "json_result \<Rightarrow> response" where
  "part_test_key r =
     (case r of
        JsonRejected e \<Rightarrow> \<lparr>status = 500, body = JObj [(''error'', JStr e)]\<rparr>
      | JsonResponse st data \<Rightarrow>
          \<lparr>status = 200,
           body = JObj [(''valid'', JBool (response_ok st)), (''status'', JNum (of_int st)),
                        (''data'', data)]\<rparr>)"

definition part_reaper :: "int \<Rightarrow> state \<Rightarrow> state" where
  "part_reaper now s =
     (let cutoff = now - 3600000
      in fold (\<lambda>(id, t) s'.
                 if t < cutoff
                 then s'\<lparr>requestTimes := Map_delete id (requestTimes s'),
                         conversationHistories := Map_delete id (conversationHistories s')\<rparr>
                 else s')
              (requestTimes s) s)"

section \<open>The service as a transition system\<close>

datatype impl = ServerJs | Part000

definition SYSTEM_PROMPT :: "impl \<Rightarrow> string" where
  "SYSTEM_PROMPT i = (case i of ServerJs \<Rightarrow> server_SYSTEM_PROMPT | Part000 \<Rightarrow> part_SYSTEM_PROMPT)"

definition chat_begin ::
  "impl \<Rightarrow> builtins \<Rightarrow> chat_request \<Rightarrow> int \<Rightarrow> state \<Rightarrow> begin_result \<times> state" where
  "chat_begin i js req now s =
     (case i of ServerJs \<Rightarrow> server_chat_begin js req now s | Part000 \<Rightarrow> part_chat_begin req now s)"

definition chat_resume ::
  "impl \<Rightarrow> builtins \<Rightarrow> nat \<Rightarrow> fetch_result \<Rightarrow> int \<Rightarrow> state \<Rightarrow> response \<times> state" where
  "chat_resume i js history fr now s =
     (case i of
        ServerJs \<Rightarrow> server_chat_resume js history fr now s
      | Part000 \<Rightarrow> part_chat_resume js history fr now s)"

definition clear :: "impl \<Rightarrow> string option \<Rightarrow> state \<Rightarrow> response \<times> state" where
  "clear i sid s = (case i of ServerJs \<Rightarrow> server_clear sid s | Part000 \<Rightarrow> part_clear sid s)"

definition reaper :: "impl \<Rightarrow> int \<Rightarrow> state \<Rightarrow> state" where
  "reaper i now s = (case i of ServerJs \<Rightarrow> server_reaper now s | Part000 \<Rightarrow> part_reaper now s)"

text \<open>
  A chat request handled with no other event between its two halves: \<open>now\<close> is the clock
  at arrival, \<open>fr\<close> what the upstream call gives, \<open>now'\<close> the clock at the reply.
\<close>

definition chat ::
  "impl \<Rightarrow> builtins \<Rightarrow> chat_request \<Rightarrow> int \<Rightarrow> fetch_result \<Rightarrow> int \<Rightarrow> state \<Rightarrow> response \<times> state" where
  "chat i js req now fr now' s =
     (case chat_begin i js req now s of
        (Respond r, s') \<Rightarrow> (r, s')
      | (Await history u, s') \<Rightarrow> chat_resume i js history fr now' s')"

text \<open>
  The events of the single-threaded event loop. A chat request runs to its response or
  to \<^verbatim>\<open>await fetch\<close>, where the handler is suspended; \<open>UpstreamSettles k fr now\<close>
  resumes the \<open>k\<close>-th suspended handler with the outcome \<open>fr\<close> of its upstream call.
  Health and test-key requests touch no state and are not events.
\<close>

datatype event =
    ChatRequest chat_request int
  | UpstreamSettles nat fetch_result int
  | ClearRequest "string option"
  | ReaperFires int

fun step :: "impl \<Rightarrow> builtins \<Rightarrow> event \<Rightarrow> state \<Rightarrow> state option" where
  "step i js (ChatRequest req now) s =
     (case chat_begin i js req now s of
        (Respond r, s') \<Rightarrow> Some s'
      | (Await history u, s') \<Rightarrow> Some (s'\<lparr>suspended := suspended s' @ [history]\<rparr>))"
| "step i js (UpstreamSettles k fr now) s =
     (if k < length (suspended s)
      then Some (snd (chat_resume i js (suspended s ! k) fr now
                        (s\<lparr>suspended := take k (suspended s) @ drop (Suc k) (suspended s)\<rparr>)))
      else None)"
| "step i js (ClearRequest sid) s = Some (snd (clear i sid s))"
| "step i js (ReaperFires now) s = Some (reaper i now s)"

fun run :: "impl \<Rightarrow> builtins \<Rightarrow> event list \<Rightarrow> state \<Rightarrow> state option" where
  "run i js [] s = Some s"
| "run i js (e # es) s = (case step i js e s of None \<Rightarrow> None | Some s' \<Rightarrow> run i js es s')"

text \<open>The reachable states: those some sequence of events leads to from the empty state.\<close>

definition reachable :: "impl \<Rightarrow> builtins \<Rightarrow> state \<Rightarrow> bool" where
  "reachable i js s = (\<exists>es. run i js es init = Some s)"

section \<open>Invariants and example inputs\<close>

text \<open>The message every transcript is seeded with.\<close>

definition system_message :: "impl \<Rightarrow> chat_message" where
  "system_message i = \<lparr>role = ''system'', content = JStr (SYSTEM_PROMPT i)\<rparr>"

text \<open>
  The store is in order when every array object starts with the system message and every
  reference held by the map or by a suspended handler points into the store.
\<close>

definition store_ok :: "impl \<Rightarrow> state \<Rightarrow> bool" where
  "store_ok i s \<longleftrightarrow>
     (\<forall>h \<in> set (arrays s). h \<noteq> [] \<and> hd h = system_message i)
     \<and> (\<forall>p \<in> set (conversationHistories s). snd p < length (arrays s))
     \<and> (\<forall>a \<in> set (suspended s). a < length (arrays s))"

text \<open>
  The two maps are in order when each holds a key once, as a \<^verbatim>\<open>Map\<close> does, and every
  session with a transcript has a rate-limit entry.
\<close>

definition maps_ok :: "state \<Rightarrow> bool" where
  "maps_ok s \<longleftrightarrow>
     distinct (map fst (conversationHistories s))
     \<and> distinct (map fst (requestTimes s))
     \<and> fst ` set (conversationHistories s) \<subseteq> fst ` set (requestTimes s)"

text \<open>
  A concrete runtime for the examples: an upstream payload with the completion text
  \<^verbatim>\<open>hello\<close>, an empty object, and a parser that knows these two texts.
\<close>

definition hello_payload :: string where
  \<open>hello_payload = ''{"choices":[{"message":{"content":"hello"}}]}''\<close>

definition example_js :: builtins where
  "example_js =
     \<lparr>JSON_parse = (\<lambda>t. if t = hello_payload
                          then Inr (JObj [(''choices'',
                                 JArr [JObj [(''message'', JObj [(''content'', JStr ''hello'')])]])])
                          else if t = ''{}'' then Inr (JObj [])
                          else Inl ''Unexpected token''),
      ToString = (\<lambda>v. case v of JStr s \<Rightarrow> s | _ \<Rightarrow> ''?''),
      toISOString = (\<lambda>t. ''1970-01-01T00:00:00.000Z'')\<rparr>"

text \<open>A state with one session, \<^verbatim>\<open>s2\<close>, last accepted at clock 7000.\<close>

definition example_state :: state where
  "example_state =
     \<lparr>conversationHistories = [(''s2'', 0)],
      requestTimes = [(''s2'', 7000)],
      arrays = [[system_message Part000, \<lparr>role = ''user'', content = JStr ''hi''\<rparr>]],
      suspended = []\<rparr>"

definition reaper_example :: state where
  "reaper_example =
     \<lparr>conversationHistories = [(''old'', 0), (''new'', 1)],
      requestTimes = [(''old'', 399999), (''new'', 400000)],
      arrays = [[system_message ServerJs, \<lparr>role = ''user'', content = JStr ''hi''\<rparr>],
                [system_message ServerJs, \<lparr>role = ''user'', content = JStr ''hello''\<rparr>]],
      suspended = []\<rparr>"


text \<open>
  One exchange of the default session, started at clock \<open>t\<close> and answered by the
  upstream with \<^verbatim>\<open>hello\<close> half a second later; eleven of them, a second apart.
\<close>

definition exchange :: "int \<Rightarrow> event list" where
  "exchange t =
     [ChatRequest \<lparr>message = JStr ''hi'', sessionId = None\<rparr> t,
      UpstreamSettles 0 (Response 200 hello_payload) (t + 500)]"


text \<open>The state after the first of these exchanges.\<close>

definition after_one_exchange :: state where
  "after_one_exchange =
     \<lparr>conversationHistories = [(''default'', 0)],
      requestTimes = [(''default'', 1000)],
      arrays = [[system_message ServerJs, \<lparr>role = ''user'', content = JStr ''hi''\<rparr>,
                 \<lparr>role = ''assistant'', content = JStr ''hello''\<rparr>]],
      suspended = []\<rparr>"

section \<open>Map and array lemmas\<close>

lemma Map_get_set: "Map_get (Map_set k v m) k' = (if k' = k then Some v else Map_get m k')"
  by (induction m) (auto simp: Map_get_def)

lemma Map_get_delete: "Map_get (Map_delete k m) k' = (if k' = k then None else Map_get m k')"
  by (induction m) (auto simp: Map_get_def Map_delete_def)

lemma Map_delete_idem: "Map_delete k (Map_delete k m) = Map_delete k m"
  by (simp add: Map_delete_def)

lemma keys_Map_set: "fst ` set (Map_set k v m) = insert k (fst ` set m)"
  by (induction m) auto

lemma distinct_Map_set: "distinct (map fst m) \<Longrightarrow> distinct (map fst (Map_set k v m))"
  by (induction m) (auto simp: keys_Map_set)

lemma distinct_Map_delete: "distinct (map fst m) \<Longrightarrow> distinct (map fst (Map_delete k m))"
  by (simp add: Map_delete_def distinct_map_filter)

lemma Map_get_None_iff: "Map_get m k = None \<longleftrightarrow> k \<notin> fst ` set m"
  by (simp add: Map_get_def map_of_eq_None_iff)


lemma Map_delete_absent: "Map_get m k = None \<Longrightarrow> Map_delete k m = m"
  by (induction m) (auto simp: Map_get_def Map_delete_def split: if_splits)

lemma Map_get_filter_keys:
  "Map_get (filter (\<lambda>p. P (fst p)) m) k = (if P k then Map_get m k else None)"
  by (induction m) (auto simp: Map_get_def)

lemma distinct_Map_get:
  "distinct (map fst m) \<Longrightarrow> (k, t) \<in> set m \<longleftrightarrow> Map_get m k = Some t"
  by (simp add: Map_get_def)

section \<open>The handlers, case by case\<close>

lemma clear_eq:
  "clear i sid s =
     (\<lparr>status = 200, body = JObj [(''message'', JStr ''Conversation cleared'')]\<rparr>,
      s\<lparr>conversationHistories :=
           Map_delete (case sid of None \<Rightarrow> ''default'' | Some x \<Rightarrow> x) (conversationHistories s),
        requestTimes := Map_delete (case sid of None \<Rightarrow> ''default'' | Some x \<Rightarrow> x) (requestTimes s)\<rparr>)"
  by (cases i) (simp_all add: clear_def server_clear_def part_clear_def Let_def)

lemma reaper_eq:
  "reaper i now s =
     fold (\<lambda>(id, t) s'.
             if t < now - 3600000
             then s'\<lparr>requestTimes := Map_delete id (requestTimes s'),
                     conversationHistories := Map_delete id (conversationHistories s')\<rparr>
             else s')
          (requestTimes s) s"
  by (cases i) (simp_all add: reaper_def server_reaper_def part_reaper_def Let_def)

lemma reaper_fold:
  "fold (\<lambda>(id, t) s'.
           if t < c
           then s'\<lparr>requestTimes := Map_delete id (requestTimes s'),
                   conversationHistories := Map_delete id (conversationHistories s')\<rparr>
           else s') ts s =
   s\<lparr>requestTimes := filter (\<lambda>p. \<forall>t. (fst p, t) \<in> set ts \<longrightarrow> \<not> t < c) (requestTimes s),
     conversationHistories :=
       filter (\<lambda>p. \<forall>t. (fst p, t) \<in> set ts \<longrightarrow> \<not> t < c) (conversationHistories s)\<rparr>"
proof (induction ts arbitrary: s)
  case Nil
  then show ?case by simp
next
  case (Cons x ts)
  obtain id t where x: "x = (id, t)" by (cases x)
  have keep: "filter (\<lambda>p. \<forall>t'. (fst p, t') \<in> set ts \<longrightarrow> \<not> t' < c) m =
              filter (\<lambda>p. \<forall>t'. (fst p, t') \<in> set (x # ts) \<longrightarrow> \<not> t' < c) m"
    if "\<not> t < c" for m :: "(string \<times> 'v) list"
    using that by (intro filter_cong refl) (auto simp: x)
  have drop: "filter (\<lambda>p. \<forall>t'. (fst p, t') \<in> set ts \<longrightarrow> \<not> t' < c) (Map_delete id m) =
              filter (\<lambda>p. \<forall>t'. (fst p, t') \<in> set (x # ts) \<longrightarrow> \<not> t' < c) m"
    if "t < c" for m :: "(string \<times> 'v) list"
    unfolding Map_delete_def filter_filter
    using that by (intro filter_cong refl) (auto simp: x)
  show ?case
  proof (cases "t < c")
    case True
    have "fold (\<lambda>(id, t) s'.
           if t < c
           then s'\<lparr>requestTimes := Map_delete id (requestTimes s'),
                   conversationHistories := Map_delete id (conversationHistories s')\<rparr>
           else s') (x # ts) s =
          s\<lparr>requestTimes := filter (\<lambda>p. \<forall>t'. (fst p, t') \<in> set ts \<longrightarrow> \<not> t' < c) (Map_delete id (requestTimes s)),
            conversationHistories :=
              filter (\<lambda>p. \<forall>t'. (fst p, t') \<in> set ts \<longrightarrow> \<not> t' < c) (Map_delete id (conversationHistories s))\<rparr>"
      using True by (simp add: x Cons.IH del: set_simps)
    then show ?thesis
      unfolding drop [OF True] .
  next
    case False
    have "fold (\<lambda>(id, t) s'.
           if t < c
           then s'\<lparr>requestTimes := Map_delete id (requestTimes s'),
                   conversationHistories := Map_delete id (conversationHistories s')\<rparr>
           else s') (x # ts) s =
          s\<lparr>requestTimes := filter (\<lambda>p. \<forall>t'. (fst p, t') \<in> set ts \<longrightarrow> \<not> t' < c) (requestTimes s),
            conversationHistories :=
              filter (\<lambda>p. \<forall>t'. (fst p, t') \<in> set ts \<longrightarrow> \<not> t' < c) (conversationHistories s)\<rparr>"
      using False by (simp add: x Cons.IH del: set_simps)
    then show ?thesis
      unfolding keep [OF False] .
  qed
qed

lemma part_MODEL_eq: "part_MODEL = server_MODEL"
  by (simp add: part_MODEL_def server_MODEL_def)

lemma last_request_eq:
  "(case Map_get m k of None \<Rightarrow> 0 | Some t \<Rightarrow> if t \<noteq> (0::int) then t else 0) =
   (case Map_get m k of None \<Rightarrow> 0 | Some t \<Rightarrow> t)"
  by (simp split: option.splits)

lemma chat_begin_invalid:
  "\<not> truthy (message req) \<Longrightarrow>
   chat_begin i js req now s =
     (Respond \<lparr>status = 400, body = JObj [(''error'', JStr ''Message is required'')]\<rparr>, s)"
  by (cases i) (simp_all add: chat_begin_def server_chat_begin_def part_chat_begin_def)

lemma chat_begin_valid_not_400:
  "truthy (message req) \<Longrightarrow> chat_begin i js req now s = (Respond r, s') \<Longrightarrow> status r = 429 \<and> s' = s"
  by (cases i)
     (auto simp: chat_begin_def server_chat_begin_def part_chat_begin_def Let_def
           split: if_splits prod.splits)

lemma chat_begin_limited:
  assumes "truthy (message req)"
      and "now - (case Map_get (requestTimes s) (case sessionId req of None \<Rightarrow> ''default'' | Some x \<Rightarrow> x) of
                    None \<Rightarrow> 0 | Some t \<Rightarrow> t) < 1000"
  shows "\<exists>e. chat_begin i js req now s =
               (Respond \<lparr>status = 429, body = JObj [(''error'', JStr e)]\<rparr>, s)"
  using assms
  by (cases i)
     (simp_all add: chat_begin_def server_chat_begin_def part_chat_begin_def Let_def last_request_eq
        server_MIN_REQUEST_INTERVAL_def part_MIN_REQUEST_INTERVAL_def)

lemma chat_begin_new:
  assumes "truthy (message req)"
      and "\<not> now - (case Map_get (requestTimes s) sid of None \<Rightarrow> 0 | Some t \<Rightarrow> t) < 1000"
      and "sid = (case sessionId req of None \<Rightarrow> ''default'' | Some x \<Rightarrow> x)"
      and "Map_get (conversationHistories s) sid = None"
  shows "chat_begin i js req now s =
           (Await (length (arrays s))
              \<lparr>model = server_MODEL,
               messages = [\<lparr>role = ''system'', content = JStr (SYSTEM_PROMPT i)\<rparr>,
                           \<lparr>role = ''user'', content = message req\<rparr>]\<rparr>,
            s\<lparr>requestTimes := Map_set sid now (requestTimes s),
              arrays := arrays s @ [[\<lparr>role = ''system'', content = JStr (SYSTEM_PROMPT i)\<rparr>,
                                     \<lparr>role = ''user'', content = message req\<rparr>]],
              conversationHistories := Map_set sid (length (arrays s)) (conversationHistories s)\<rparr>)"
  using assms
  by (cases i)
     (simp_all add: chat_begin_def server_chat_begin_def part_chat_begin_def Let_def last_request_eq
        server_MIN_REQUEST_INTERVAL_def part_MIN_REQUEST_INTERVAL_def SYSTEM_PROMPT_def
        part_MODEL_eq push_def trim_def)

lemma chat_begin_old:
  assumes "truthy (message req)"
      and "\<not> now - (case Map_get (requestTimes s) sid of None \<Rightarrow> 0 | Some t \<Rightarrow> t) < 1000"
      and "sid = (case sessionId req of None \<Rightarrow> ''default'' | Some x \<Rightarrow> x)"
      and "Map_get (conversationHistories s) sid = Some a"
  shows "chat_begin i js req now s =
           (Await a
              \<lparr>model = server_MODEL,
               messages = arrays (trim a (push a \<lparr>role = ''user'', content = message req\<rparr>
                            (s\<lparr>requestTimes := Map_set sid now (requestTimes s)\<rparr>))) ! a\<rparr>,
            trim a (push a \<lparr>role = ''user'', content = message req\<rparr>
                      (s\<lparr>requestTimes := Map_set sid now (requestTimes s)\<rparr>)))"
  using assms
  by (cases i)
     (simp_all add: chat_begin_def server_chat_begin_def part_chat_begin_def Let_def last_request_eq
        server_MIN_REQUEST_INTERVAL_def part_MIN_REQUEST_INTERVAL_def
        part_MODEL_eq)

lemma push_trim_eq:
  assumes "a < length (arrays s)"
  shows "trim a (push a m s) =
           s\<lparr>arrays := (arrays s)[a :=
                (if length (arrays s ! a) + 1 > 21
                 then splice 1 (length (arrays s ! a) + 1 - 21) (arrays s ! a @ [m])
                 else arrays s ! a @ [m])]\<rparr>"
  using assms by (simp add: trim_def push_def Let_def)


lemma chat_begin_cases:
  assumes "chat_begin i js req now s = (res, s')"
  obtains (reject) r where "res = Respond r" "s' = s"
  | (new) "res = Await (length (arrays s))
              \<lparr>model = server_MODEL,
               messages = [system_message i, \<lparr>role = ''user'', content = message req\<rparr>]\<rparr>"
          "Map_get (conversationHistories s) (case sessionId req of None \<Rightarrow> ''default'' | Some x \<Rightarrow> x) = None"
          "s' = s\<lparr>requestTimes := Map_set (case sessionId req of None \<Rightarrow> ''default'' | Some x \<Rightarrow> x) now (requestTimes s),
                  arrays := arrays s @ [[system_message i, \<lparr>role = ''user'', content = message req\<rparr>]],
                  conversationHistories :=
                    Map_set (case sessionId req of None \<Rightarrow> ''default'' | Some x \<Rightarrow> x) (length (arrays s))
                      (conversationHistories s)\<rparr>"
  | (old) a where "res = Await a \<lparr>model = server_MODEL, messages = arrays s' ! a\<rparr>"
          "Map_get (conversationHistories s) (case sessionId req of None \<Rightarrow> ''default'' | Some x \<Rightarrow> x) = Some a"
          "s' = trim a (push a \<lparr>role = ''user'', content = message req\<rparr>
                  (s\<lparr>requestTimes := Map_set (case sessionId req of None \<Rightarrow> ''default'' | Some x \<Rightarrow> x) now (requestTimes s)\<rparr>))"
proof -
  let ?sid = "case sessionId req of None \<Rightarrow> ''default'' | Some x \<Rightarrow> x"
  let ?last = "case Map_get (requestTimes s) ?sid of None \<Rightarrow> 0 | Some t \<Rightarrow> t"
  show thesis
  proof (cases "truthy (message req)")
    case False
    then show thesis using assms reject by (auto simp: chat_begin_invalid)
  next
    case t: True
    show thesis
    proof (cases "now - ?last < 1000")
      case True
      then show thesis using t assms reject chat_begin_limited [of req now s i js] by auto
    next
      case f: False
      show thesis
      proof (cases "Map_get (conversationHistories s) ?sid")
        case None
        then show thesis
          using chat_begin_new [OF t f refl None, of i js] assms new
          by (simp add: system_message_def)
      next
        case (Some a)
        then show thesis
          using chat_begin_old [OF t f refl Some, of i js] assms old [of a]
          by simp
      qed
    qed
  qed
qed

lemma chat_resume_cases:
  assumes "chat_resume i js h fr now s = (r, s')"
  obtains (fail) "s' = s" "status r \<noteq> 200 \<or> \<not> response_ok (status r)"
  | (reply) c where "s' = push h \<lparr>role = ''assistant'', content = c\<rparr> s" "truthy c" "status r = 200"
proof (cases i)
  case ServerJs
  then have "server_chat_resume js h fr now s = (r, s')"
    using assms by (simp add: chat_resume_def)
  then show thesis
    using fail reply
    by (auto simp: server_chat_resume_def server_chat_try_def response_ok_def
             split: fetch_result.splits sum.splits if_splits)
next
  case Part000
  then have "part_chat_resume js h fr now s = (r, s')"
    using assms by (simp add: chat_resume_def)
  then show thesis
    using fail reply
    by (auto simp: part_chat_resume_def response_ok_def js_or_def Let_def
             split: fetch_result.splits sum.splits if_splits)
qed

section \<open>Claims\<close>

text \<open>
  C8. For every session identifier, \<^verbatim>\<open>/api/clear\<close> answers
  \<^verbatim>\<open>{message: "Conversation cleared"}\<close> and removes the session's transcript and
  rate-limit entry, whether present or not; every other session keeps its entries, no
  array object is touched, clearing twice is clearing once, and clearing an absent
  session changes nothing.
\<close>

theorem C8_clear:
  "fst (clear i sid s) = \<lparr>status = 200, body = JObj [(''message'', JStr ''Conversation cleared'')]\<rparr>
   \<and> Map_get (conversationHistories (snd (clear i sid s))) k =
       (if k = (case sid of None \<Rightarrow> ''default'' | Some x \<Rightarrow> x) then None
        else Map_get (conversationHistories s) k)
   \<and> Map_get (requestTimes (snd (clear i sid s))) k =
       (if k = (case sid of None \<Rightarrow> ''default'' | Some x \<Rightarrow> x) then None
        else Map_get (requestTimes s) k)
   \<and> transcript (snd (clear i sid s)) k =
       (if k = (case sid of None \<Rightarrow> ''default'' | Some x \<Rightarrow> x) then None else transcript s k)
   \<and> arrays (snd (clear i sid s)) = arrays s
   \<and> clear i sid (snd (clear i sid s)) = clear i sid s
   \<and> (Map_get (conversationHistories s) (case sid of None \<Rightarrow> ''default'' | Some x \<Rightarrow> x) = None
        \<and> Map_get (requestTimes s) (case sid of None \<Rightarrow> ''default'' | Some x \<Rightarrow> x) = None
       \<longrightarrow> snd (clear i sid s) = s)"
  by (simp add: clear_eq Map_get_delete transcript_def Map_delete_idem Map_delete_absent
        split: option.splits)


theorem C8_clear_witness:
  "Map_get (conversationHistories example_state) ''s1'' = None
   \<and> Map_get (requestTimes example_state) ''s1'' = None
   \<and> snd (clear Part000 (Some ''s1'') example_state) = example_state
   \<and> transcript (snd (clear Part000 (Some ''s2'') example_state)) ''s2'' = None"
  using C8_clear [of Part000 "Some ''s1''" example_state "''s2''"]
        C8_clear [of Part000 "Some ''s2''" example_state "''s2''"]
  by (simp add: Map_get_def example_state_def)

text \<open>
  C9. A chat request whose message is missing or the empty string is answered with 400
  and \<^verbatim>\<open>{error: "Message is required"}\<close>, and the state is left as it was; a request
  whose message is a non-empty string is never answered with 400 by the first half of
  the handler.
\<close>

theorem C9_validation:
  "(message req = JUndefined \<or> message req = JStr [] \<longrightarrow>
      chat_begin i js req now s =
        (Respond \<lparr>status = 400, body = JObj [(''error'', JStr ''Message is required'')]\<rparr>, s)
      \<and> chat i js req now fr now' s =
        (\<lparr>status = 400, body = JObj [(''error'', JStr ''Message is required'')]\<rparr>, s))
   \<and> (\<forall>m r s'. message req = JStr m \<and> m \<noteq> [] \<and> chat_begin i js req now s = (Respond r, s')
        \<longrightarrow> status r \<noteq> 400)"
proof (intro conjI impI allI)
  assume "message req = JUndefined \<or> message req = JStr []"
  then have f: "\<not> truthy (message req)" by auto
  then show "chat_begin i js req now s =
        (Respond \<lparr>status = 400, body = JObj [(''error'', JStr ''Message is required'')]\<rparr>, s)"
    by (rule chat_begin_invalid)
  then show "chat i js req now fr now' s =
        (\<lparr>status = 400, body = JObj [(''error'', JStr ''Message is required'')]\<rparr>, s)"
    by (simp add: chat_def)
next
  fix m r s'
  assume "message req = JStr m \<and> m \<noteq> [] \<and> chat_begin i js req now s = (Respond r, s')"
  then have "truthy (message req)" and "chat_begin i js req now s = (Respond r, s')" by auto
  then have "status r = 429" using chat_begin_valid_not_400 by blast
  then show "status r \<noteq> 400" by simp
qed
theorem C9_validation_witness:
  "chat_begin Part000 example_js \<lparr>message = JUndefined, sessionId = None\<rparr> 9000 example_state =
     (Respond \<lparr>status = 400, body = JObj [(''error'', JStr ''Message is required'')]\<rparr>, example_state)
   \<and> chat_begin Part000 example_js \<lparr>message = JStr ''hi'', sessionId = Some ''s2''\<rparr> 7500 example_state =
     (Respond \<lparr>status = 429, body = JObj [(''error'', JStr ''Please wait 1s between messages.'')]\<rparr>,
      example_state)
   \<and> status \<lparr>status = 429, body = JObj [(''error'', JStr ''Please wait 1s between messages.'')]\<rparr> \<noteq> 400"
  using C9_validation [of "\<lparr>message = JUndefined, sessionId = None\<rparr>" Part000 example_js 9000
          example_state "Rejected []" 0]
        C9_validation [of "\<lparr>message = JStr ''hi'', sessionId = Some ''s2''\<rparr>" Part000 example_js 7500
          example_state "Rejected []" 0]
  by (simp add: chat_begin_def part_chat_begin_def Let_def Map_get_def example_state_def
        part_MIN_REQUEST_INTERVAL_def)

text \<open>
  C7. One run of the reaper at clock \<open>now\<close> deletes the rate-limit entry and the
  transcript of exactly the sessions whose stored timestamp is below \<open>now - 3600000\<close>;
  every other session keeps both, and no array object is touched. The keys of
  \<^verbatim>\<open>requestTimes\<close> are distinct, as those of a \<^verbatim>\<open>Map\<close> are.
\<close>

theorem C7_reaper:
  assumes "distinct (map fst (requestTimes s))"
  shows "Map_get (requestTimes (reaper i now s)) k =
           (case Map_get (requestTimes s) k of
              None \<Rightarrow> None
            | Some t \<Rightarrow> if t < now - 3600000 then None else Some t)
         \<and> Map_get (conversationHistories (reaper i now s)) k =
           (case Map_get (requestTimes s) k of
              None \<Rightarrow> Map_get (conversationHistories s) k
            | Some t \<Rightarrow> if t < now - 3600000 then None else Map_get (conversationHistories s) k)
         \<and> transcript (reaper i now s) k =
           (case Map_get (requestTimes s) k of
              None \<Rightarrow> transcript s k
            | Some t \<Rightarrow> if t < now - 3600000 then None else transcript s k)
         \<and> arrays (reaper i now s) = arrays s
         \<and> suspended (reaper i now s) = suspended s"
proof -
  let ?P = "\<lambda>k. \<forall>t. (k, t) \<in> set (requestTimes s) \<longrightarrow> \<not> t < now - 3600000"
  have P: "?P k \<longleftrightarrow> (case Map_get (requestTimes s) k of None \<Rightarrow> True | Some t \<Rightarrow> \<not> t < now - 3600000)" for k
    using assms by (auto simp: distinct_Map_get split: option.splits)
  have r: "reaper i now s =
             s\<lparr>requestTimes := filter (\<lambda>p. ?P (fst p)) (requestTimes s),
               conversationHistories := filter (\<lambda>p. ?P (fst p)) (conversationHistories s)\<rparr>"
    by (simp add: reaper_eq reaper_fold)
  have 1: "Map_get (requestTimes (reaper i now s)) k = (if ?P k then Map_get (requestTimes s) k else None)"
    unfolding r using Map_get_filter_keys [of ?P "requestTimes s" k] by simp
  have 2: "Map_get (conversationHistories (reaper i now s)) k =
             (if ?P k then Map_get (conversationHistories s) k else None)"
    unfolding r using Map_get_filter_keys [of ?P "conversationHistories s" k] by simp
  have 3: "arrays (reaper i now s) = arrays s" "suspended (reaper i now s) = suspended s"
    unfolding r by simp_all
  show ?thesis
    unfolding transcript_def 1 2 3 P
    by (simp split: option.splits)
qed


theorem C7_reaper_witness:
  "distinct (map fst (requestTimes reaper_example))
   \<and> Map_get (requestTimes (reaper ServerJs 4000000 reaper_example)) ''old'' = None
   \<and> transcript (reaper ServerJs 4000000 reaper_example) ''old'' = None
   \<and> Map_get (requestTimes (reaper ServerJs 4000000 reaper_example)) ''new'' = Some 400000
   \<and> transcript (reaper ServerJs 4000000 reaper_example) ''new'' = transcript reaper_example ''new''"
  using C7_reaper [of reaper_example ServerJs 4000000 "''old''"]
        C7_reaper [of reaper_example ServerJs 4000000 "''new''"]
  by (simp add: Map_get_def reaper_example_def)

section \<open>Invariants of the reachable states\<close>

lemma set_Map_set: "set (Map_set k v m) \<subseteq> insert (k, v) (set m)"
  by (induction m) auto

lemma keys_filter: "fst ` set (filter (\<lambda>p. P (fst p)) m) = {k \<in> fst ` set m. P k}"
  by (induction m) auto

lemma keys_Map_delete: "fst ` set (Map_delete k m) = fst ` set m - {k}"
  by (auto simp: Map_delete_def)

lemma Map_get_SomeD: "Map_get m k = Some v \<Longrightarrow> (k, v) \<in> set m"
  by (simp add: Map_get_def map_of_SomeD)

lemma reaper_filter:
  "reaper i now s =
     s\<lparr>requestTimes :=
         filter (\<lambda>p. \<forall>t. (fst p, t) \<in> set (requestTimes s) \<longrightarrow> \<not> t < now - 3600000) (requestTimes s),
       conversationHistories :=
         filter (\<lambda>p. \<forall>t. (fst p, t) \<in> set (requestTimes s) \<longrightarrow> \<not> t < now - 3600000)
           (conversationHistories s)\<rparr>"
  by (simp add: reaper_eq reaper_fold)

lemma hd_splice1: "xs \<noteq> [] \<Longrightarrow> splice 1 n xs \<noteq> [] \<and> hd (splice 1 n xs) = hd xs"
  by (cases xs) (simp_all add: splice_def)

lemma store_ok_update:
  assumes "store_ok i s" and "new \<noteq> []" and "hd new = system_message i"
  shows "store_ok i (s\<lparr>arrays := (arrays s)[a := new]\<rparr>)"
proof -
  have "set ((arrays s)[a := new]) \<subseteq> insert new (set (arrays s))"
    by (rule set_update_subset_insert)
  then have "\<forall>h \<in> set ((arrays s)[a := new]). h \<noteq> [] \<and> hd h = system_message i"
    using assms unfolding store_ok_def by blast
  then show ?thesis
    using assms(1) by (simp add: store_ok_def)
qed

lemma store_ok_push_trim:
  assumes "store_ok i s" and "a < length (arrays s)"
  shows "store_ok i (trim a (push a m s))"
proof -
  define h where "h = arrays s ! a"
  have "h \<in> set (arrays s)" using assms(2) by (simp add: h_def)
  then have h: "h \<noteq> []" "hd h = system_message i"
    using assms(1) unfolding store_ok_def by blast+
  define new where
    "new = (if length h + 1 > 21 then splice 1 (length h + 1 - 21) (h @ [m]) else h @ [m])"
  have "h @ [m] \<noteq> []" "hd (h @ [m]) = system_message i" using h by simp_all
  then have "new \<noteq> []" "hd new = system_message i"
    unfolding new_def using hd_splice1 [of "h @ [m]" "length h + 1 - 21"] by (simp_all del: One_nat_def)
  then have "store_ok i (s\<lparr>arrays := (arrays s)[a := new]\<rparr>)"
    by (rule store_ok_update [OF assms(1)])
  then show ?thesis
    unfolding push_trim_eq [OF assms(2)] new_def h_def .
qed

lemma store_ok_push:
  assumes "store_ok i s" and "a < length (arrays s)"
  shows "store_ok i (push a m s)"
proof -
  have "arrays s ! a \<in> set (arrays s)" using assms(2) by simp
  then have "arrays s ! a \<noteq> []" "hd (arrays s ! a) = system_message i"
    using assms(1) unfolding store_ok_def by blast+
  then have "arrays s ! a @ [m] \<noteq> []" "hd (arrays s ! a @ [m]) = system_message i" by simp_all
  then show ?thesis
    unfolding push_def by (rule store_ok_update [OF assms(1)])
qed

lemma store_ok_chat_begin:
  assumes "store_ok i s" and "chat_begin i js req now s = (res, s')"
  shows "store_ok i s' \<and> (\<forall>a u. res = Await a u \<longrightarrow> a < length (arrays s'))"
  using assms(2)
proof (cases rule: chat_begin_cases)
  case (reject r)
  then show ?thesis using assms(1) by simp
next
  case new
  have "\<forall>p \<in> set (Map_set (case sessionId req of None \<Rightarrow> ''default'' | Some x \<Rightarrow> x) (length (arrays s))
                     (conversationHistories s)). snd p < Suc (length (arrays s))"
    using set_Map_set [of "case sessionId req of None \<Rightarrow> ''default'' | Some x \<Rightarrow> x" "length (arrays s)"
            "conversationHistories s"] assms(1)
    unfolding store_ok_def by fastforce
  then show ?thesis
    using assms(1) unfolding new store_ok_def by (auto simp: less_Suc_eq)
next
  case (old a)
  have a: "a < length (arrays s)"
    using Map_get_SomeD [OF old(2)] assms(1) unfolding store_ok_def by fastforce
  have "store_ok i (s\<lparr>requestTimes := Map_set (case sessionId req of None \<Rightarrow> ''default'' | Some x \<Rightarrow> x) now (requestTimes s)\<rparr>)"
    using assms(1) by (simp add: store_ok_def)
  then have "store_ok i s'"
    unfolding old(3) using a by (intro store_ok_push_trim) simp_all
  moreover have "length (arrays s') = length (arrays s)"
    unfolding old(3) by (simp add: trim_def push_def Let_def)
  ultimately show ?thesis using a old(1) by simp
qed

lemma store_ok_chat_resume:
  assumes "store_ok i s" and "h < length (arrays s)" and "chat_resume i js h fr now s = (r, s')"
  shows "store_ok i s'"
  using assms(3)
proof (cases rule: chat_resume_cases)
  case fail
  then show ?thesis using assms(1) by simp
next
  case (reply c)
  then show ?thesis using store_ok_push [OF assms(1,2)] by simp
qed

lemma store_ok_clear: "store_ok i s \<Longrightarrow> store_ok i (snd (clear i sid s))"
  by (auto simp: clear_eq store_ok_def Map_delete_def)

lemma store_ok_reaper: "store_ok i s \<Longrightarrow> store_ok i (reaper i now s)"
  unfolding reaper_filter by (auto simp: store_ok_def)

lemma store_ok_step:
  assumes "store_ok i s" and "step i js e s = Some s'"
  shows "store_ok i s'"
proof (cases e)
  case (ChatRequest req now)
  obtain res s1 where b: "chat_begin i js req now s = (res, s1)" by (cases "chat_begin i js req now s")
  from store_ok_chat_begin [OF assms(1) b]
  have ok: "store_ok i s1" and aw: "\<And>a u. res = Await a u \<Longrightarrow> a < length (arrays s1)" by auto
  show ?thesis
  proof (cases res)
    case (Respond r)
    then show ?thesis using assms(2) ChatRequest b ok by simp
  next
    case (Await a u)
    then have "s' = s1\<lparr>suspended := suspended s1 @ [a]\<rparr>"
      using assms(2) ChatRequest b by simp
    then show ?thesis using ok aw [OF Await] by (auto simp: store_ok_def)
  qed
next
  case (UpstreamSettles k fr now)
  let ?s0 = "s\<lparr>suspended := take k (suspended s) @ drop (Suc k) (suspended s)\<rparr>"
  have k: "k < length (suspended s)"
    and s': "s' = snd (chat_resume i js (suspended s ! k) fr now ?s0)"
    using assms(2) UpstreamSettles by (auto split: if_splits)
  have "set (take k (suspended s) @ drop (Suc k) (suspended s)) \<subseteq> set (suspended s)"
    using set_take_subset set_drop_subset by fastforce
  then have ok0: "store_ok i ?s0"
    using assms(1) unfolding store_ok_def by auto
  have "suspended s ! k < length (arrays ?s0)"
    using assms(1) k unfolding store_ok_def by simp
  from store_ok_chat_resume [OF ok0 this, of js fr now] s' show ?thesis
    by (cases "chat_resume i js (suspended s ! k) fr now ?s0") simp
next
  case (ClearRequest sid)
  then show ?thesis using assms store_ok_clear by auto
next
  case (ReaperFires now)
  then show ?thesis using assms store_ok_reaper by auto
qed

lemma maps_ok_chat_begin:
  assumes "maps_ok s" and "chat_begin i js req now s = (res, s')"
  shows "maps_ok s'"
  using assms(2)
proof (cases rule: chat_begin_cases)
  case (reject r)
  then show ?thesis using assms(1) by simp
next
  case new
  show ?thesis
    using assms(1) unfolding new maps_ok_def
    by (auto simp: distinct_Map_set keys_Map_set)
next
  case (old a)
  have "fst ` set (conversationHistories s) \<subseteq>
        fst ` set (Map_set (case sessionId req of None \<Rightarrow> ''default'' | Some x \<Rightarrow> x) now (requestTimes s))"
    using assms(1) unfolding maps_ok_def keys_Map_set by auto
  then show ?thesis
    using assms(1) unfolding old(3) maps_ok_def
    by (simp add: trim_def push_def Let_def distinct_Map_set)
qed

lemma maps_chat_resume:
  assumes "chat_resume i js h fr now s = (r, s')"
  shows "conversationHistories s' = conversationHistories s \<and> requestTimes s' = requestTimes s
         \<and> suspended s' = suspended s"
  using assms by (cases rule: chat_resume_cases) (simp_all add: push_def)

lemma maps_ok_clear: "maps_ok s \<Longrightarrow> maps_ok (snd (clear i sid s))"
  by (auto simp: clear_eq maps_ok_def distinct_Map_delete keys_Map_delete)

lemma keys_filter_mono:
  "fst ` set m \<subseteq> fst ` set m' \<Longrightarrow>
   fst ` set (filter (\<lambda>p. P (fst p)) m) \<subseteq> fst ` set (filter (\<lambda>p. P (fst p)) m')"
  unfolding keys_filter by blast

lemma maps_ok_filter:
  assumes "maps_ok s"
  shows "maps_ok (s\<lparr>requestTimes := filter (\<lambda>p. P (fst p)) (requestTimes s),
                   conversationHistories := filter (\<lambda>p. P (fst p)) (conversationHistories s)\<rparr>)"
proof -
  have "distinct (map fst (filter (\<lambda>p. P (fst p)) (requestTimes s)))"
       "distinct (map fst (filter (\<lambda>p. P (fst p)) (conversationHistories s)))"
    using assms unfolding maps_ok_def by (simp_all add: distinct_map_filter)
  moreover have "fst ` set (filter (\<lambda>p. P (fst p)) (conversationHistories s)) \<subseteq>
                 fst ` set (filter (\<lambda>p. P (fst p)) (requestTimes s))"
    using assms unfolding maps_ok_def by (intro keys_filter_mono) simp
  ultimately show ?thesis
    unfolding maps_ok_def by (simp del: set_filter)
qed

lemma maps_ok_reaper: "maps_ok s \<Longrightarrow> maps_ok (reaper i now s)"
  unfolding reaper_filter by (rule maps_ok_filter)

lemma maps_ok_suspended: "maps_ok (s\<lparr>suspended := x\<rparr>) = maps_ok s"
  by (simp add: maps_ok_def)

lemma maps_ok_step:
  assumes "maps_ok s" and "step i js e s = Some s'"
  shows "maps_ok s'"
proof (cases e)
  case (ChatRequest req now)
  obtain res s1 where b: "chat_begin i js req now s = (res, s1)" by (cases "chat_begin i js req now s")
  have ok: "maps_ok s1" by (rule maps_ok_chat_begin [OF assms(1) b])
  show ?thesis
  proof (cases res)
    case (Respond r)
    then have "s' = s1" using assms(2) ChatRequest b by simp
    then show ?thesis using ok by simp
  next
    case (Await a u)
    then have "s' = s1\<lparr>suspended := suspended s1 @ [a]\<rparr>"
      using assms(2) ChatRequest b by simp
    then show ?thesis using ok by (simp add: maps_ok_suspended)
  qed
next
  case (UpstreamSettles k fr now)
  let ?s0 = "s\<lparr>suspended := take k (suspended s) @ drop (Suc k) (suspended s)\<rparr>"
  have s': "s' = snd (chat_resume i js (suspended s ! k) fr now ?s0)"
    using assms(2) UpstreamSettles by (auto split: if_splits)
  obtain r s1 where c: "chat_resume i js (suspended s ! k) fr now ?s0 = (r, s1)"
    by (cases "chat_resume i js (suspended s ! k) fr now ?s0")
  have "maps_ok ?s0" using assms(1) by (simp add: maps_ok_suspended)
  moreover have "conversationHistories s1 = conversationHistories ?s0"
    "requestTimes s1 = requestTimes ?s0"
    using maps_chat_resume [OF c] by simp_all
  ultimately have "maps_ok s1" unfolding maps_ok_def by simp
  then show ?thesis using s' c by simp
next
  case (ClearRequest sid)
  then show ?thesis using assms maps_ok_clear by auto
next
  case (ReaperFires now)
  then show ?thesis using assms maps_ok_reaper by auto
qed

lemma run_invariant:
  assumes "store_ok i s \<and> maps_ok s" and "run i js es s = Some s'"
  shows "store_ok i s' \<and> maps_ok s'"
  using assms
proof (induction es arbitrary: s)
  case Nil
  then show ?case by simp
next
  case (Cons e es)
  then obtain s1 where s1: "step i js e s = Some s1" and r: "run i js es s1 = Some s'"
    by (auto split: option.splits)
  have "store_ok i s1 \<and> maps_ok s1"
    using Cons.prems(1) s1 store_ok_step maps_ok_step by blast
  then show ?case using Cons.IH r by blast
qed

lemma reachable_invariant:
  assumes "reachable i js s"
  shows "store_ok i s \<and> maps_ok s"
proof -
  obtain es where "run i js es init = Some s"
    using assms unfolding reachable_def by blast
  moreover have "store_ok i init \<and> maps_ok init"
    by (simp add: store_ok_def maps_ok_def init_def)
  ultimately show ?thesis using run_invariant by blast
qed

section \<open>Claims about the reachable states\<close>

lemma transcript_store_ok:
  assumes "store_ok i s" and "transcript s sid = Some h"
  shows "h \<noteq> [] \<and> h ! 0 = system_message i"
proof -
  have "h \<in> set (arrays s)"
    using assms(2) by (auto simp: transcript_def split: option.splits if_splits)
  then have "h \<noteq> []" "hd h = system_message i"
    using assms(1) unfolding store_ok_def by blast+
  then show ?thesis by (simp add: hd_conv_nth)
qed

lemma splice_keep_last:
  assumes "length xs > 21"
  shows "splice 1 (length xs - 21) xs = xs ! 0 # drop (length xs - 20) xs"
proof -
  obtain x ys where xs: "xs = x # ys" using assms by (cases xs) auto
  define k where "k = length ys - 20"
  have 1: "length xs - 21 = k" and 2: "length xs - 20 = Suc k"
    using assms by (simp_all add: xs k_def)
  show ?thesis
    unfolding 1 2 by (simp add: splice_def xs)
qed

lemma chat_begin_sends:
  assumes "store_ok i s" and "chat_begin i js req now s = (Await a u, s')"
  shows "transcript s' (case sessionId req of None \<Rightarrow> ''default'' | Some x \<Rightarrow> x) = Some (messages u)
         \<and> messages u =
             (if length ((case transcript s (case sessionId req of None \<Rightarrow> ''default'' | Some x \<Rightarrow> x) of
                            None \<Rightarrow> [system_message i] | Some h \<Rightarrow> h)
                         @ [\<lparr>role = ''user'', content = message req\<rparr>]) \<le> 21
              then (case transcript s (case sessionId req of None \<Rightarrow> ''default'' | Some x \<Rightarrow> x) of
                      None \<Rightarrow> [system_message i] | Some h \<Rightarrow> h)
                   @ [\<lparr>role = ''user'', content = message req\<rparr>]
              else system_message i #
                   drop (length ((case transcript s (case sessionId req of None \<Rightarrow> ''default'' | Some x \<Rightarrow> x) of
                                    None \<Rightarrow> [system_message i] | Some h \<Rightarrow> h)
                                 @ [\<lparr>role = ''user'', content = message req\<rparr>]) - 20)
                        ((case transcript s (case sessionId req of None \<Rightarrow> ''default'' | Some x \<Rightarrow> x) of
                            None \<Rightarrow> [system_message i] | Some h \<Rightarrow> h)
                         @ [\<lparr>role = ''user'', content = message req\<rparr>]))"
  using assms(2)
proof (cases rule: chat_begin_cases)
  case (reject r)
  then show ?thesis by simp
next
  case new
  then show ?thesis
    by (auto simp: transcript_def Map_get_set)
next
  case (old b)
  let ?sid = "case sessionId req of None \<Rightarrow> ''default'' | Some x \<Rightarrow> x"
  let ?m = "\<lparr>role = ''user'', content = message req\<rparr>"
  have ab: "b = a" and u: "messages u = arrays s' ! a" using old(1) by simp_all
  have a: "a < length (arrays s)"
    using Map_get_SomeD [OF old(2)] assms(1) unfolding store_ok_def ab by fastforce
  define h where "h = arrays s ! a"
  have tr: "transcript s ?sid = Some h"
    using old(2) a by (simp add: transcript_def ab h_def)
  have h0: "h \<noteq> []" "h ! 0 = system_message i"
    using transcript_store_ok [OF assms(1) tr] by simp_all
  define new where
    "new = (if length h + 1 > 21 then splice 1 (length h + 1 - 21) (h @ [?m]) else h @ [?m])"
  have s': "s' = s\<lparr>requestTimes := Map_set ?sid now (requestTimes s), arrays := (arrays s)[a := new]\<rparr>"
    unfolding old(3) ab new_def h_def using a by (simp add: push_trim_eq)
  have 1: "transcript s' ?sid = Some new" "messages u = new"
    using a old(2) unfolding u s' by (simp_all add: transcript_def ab)
  have 2: "new = (if length (h @ [?m]) \<le> 21 then h @ [?m]
                  else system_message i # drop (length (h @ [?m]) - 20) (h @ [?m]))"
    using splice_keep_last [of "h @ [?m]"] h0
    by (simp add: new_def nth_append del: drop_append)
  show ?thesis
    unfolding 1 tr using 2 by simp
qed

lemma run_one_exchange: "run ServerJs example_js (exchange 1000) init = Some after_one_exchange"
  by (simp add: exchange_def init_def after_one_exchange_def chat_begin_def server_chat_begin_def
        chat_resume_def server_chat_resume_def server_chat_try_def Let_def Map_get_def
        server_MIN_REQUEST_INTERVAL_def push_def trim_def example_js_def response_ok_def
        completion_def system_message_def SYSTEM_PROMPT_def)

lemma reachable_one_exchange: "reachable ServerJs example_js after_one_exchange"
  unfolding reachable_def using run_one_exchange by blast




text \<open>
  C10. In every reachable state, a session id that has an entry in
  \<^verbatim>\<open>conversationHistories\<close>, and so every session with a transcript, has an entry in
  \<^verbatim>\<open>requestTimes\<close>.
\<close>

theorem C10_transcript_has_rate_entry:
  assumes "reachable i js s"
  shows "(\<forall>sid. Map_get (conversationHistories s) sid \<noteq> None \<longrightarrow> Map_get (requestTimes s) sid \<noteq> None)
         \<and> (\<forall>sid. transcript s sid \<noteq> None \<longrightarrow> Map_get (requestTimes s) sid \<noteq> None)"
proof -
  have "fst ` set (conversationHistories s) \<subseteq> fst ` set (requestTimes s)"
    using reachable_invariant [OF assms] by (simp add: maps_ok_def)
  then have 1: "Map_get (conversationHistories s) sid \<noteq> None \<Longrightarrow> Map_get (requestTimes s) sid \<noteq> None" for sid
    unfolding Map_get_None_iff by blast
  moreover have "transcript s sid \<noteq> None \<Longrightarrow> Map_get (conversationHistories s) sid \<noteq> None" for sid
    by (auto simp: transcript_def split: option.splits)
  ultimately show ?thesis by blast
qed

theorem C10_transcript_has_rate_entry_witness:
  "reachable ServerJs example_js after_one_exchange
   \<and> Map_get (conversationHistories after_one_exchange) ''default'' = Some 0
   \<and> Map_get (requestTimes after_one_exchange) ''default'' = Some 1000"
  using C10_transcript_has_rate_entry [OF reachable_one_exchange] reachable_one_exchange
  by (simp add: Map_get_def after_one_exchange_def)

section \<open>Claims about the chat handler\<close>

lemma reachable_example_state: "reachable Part000 example_js example_state"
proof -
  have "run Part000 example_js
          [ChatRequest \<lparr>message = JStr ''hi'', sessionId = Some ''s2''\<rparr> 7000,
           UpstreamSettles 0 (Rejected ''socket hang up'') 7100] init = Some example_state"
    by (simp add: init_def example_state_def chat_begin_def part_chat_begin_def
          chat_resume_def part_chat_resume_def Let_def Map_get_def
          part_MIN_REQUEST_INTERVAL_def push_def trim_def system_message_def SYSTEM_PROMPT_def)
  then show ?thesis unfolding reachable_def by blast
qed

text \<open>
  C2. A chat request that reaches the rate check, its message being truthy (a non-empty
  string, for one), and arrives when fewer than 1000 ms have elapsed since the session's
  stored timestamp is answered with 429 and \<^verbatim>\<open>{error: ...}\<close>, and the whole state, so
  the transcript and the timestamp, is left as it was.
\<close>

theorem C2_rate_limit:
  assumes "truthy (message req)"
      and "Map_get (requestTimes s) (case sessionId req of None \<Rightarrow> ''default'' | Some x \<Rightarrow> x) = Some t"
      and "now - t < 1000"
  shows "\<exists>e. chat_begin i js req now s =
               (Respond \<lparr>status = 429, body = JObj [(''error'', JStr e)]\<rparr>, s)
             \<and> chat i js req now fr now' s = (\<lparr>status = 429, body = JObj [(''error'', JStr e)]\<rparr>, s)"
proof -
  have "now - (case Map_get (requestTimes s) (case sessionId req of None \<Rightarrow> ''default'' | Some x \<Rightarrow> x) of
                 None \<Rightarrow> 0 | Some t \<Rightarrow> t) < 1000"
    using assms(2,3) by simp
  from chat_begin_limited [OF assms(1) this, of i js]
  obtain e where "chat_begin i js req now s =
               (Respond \<lparr>status = 429, body = JObj [(''error'', JStr e)]\<rparr>, s)" by blast
  then show ?thesis by (auto simp: chat_def)
qed

theorem C2_rate_limit_witness:
  "truthy (message \<lparr>message = JStr ''again'', sessionId = Some ''s2''\<rparr>)
   \<and> Map_get (requestTimes example_state) ''s2'' = Some 7000
   \<and> (7999 :: int) - 7000 < 1000
   \<and> chat Part000 example_js \<lparr>message = JStr ''again'', sessionId = Some ''s2''\<rparr> 7999
        (Response 200 hello_payload) 8100 example_state =
      (\<lparr>status = 429, body = JObj [(''error'', JStr ''Please wait 1s between messages.'')]\<rparr>,
       example_state)"
  using C2_rate_limit [of "\<lparr>message = JStr ''again'', sessionId = Some ''s2''\<rparr>" example_state 7000 7999
          Part000 example_js "Response 200 hello_payload" 8100]
  by (simp add: chat_def chat_begin_def part_chat_begin_def Let_def Map_get_def example_state_def
        part_MIN_REQUEST_INTERVAL_def)

lemma chat_resume_requestTimes:
  "chat_resume i js a fr now s = (r, s') \<Longrightarrow> requestTimes s' = requestTimes s"
  using maps_chat_resume by blast

lemma chat_begin_await:
  assumes "truthy (message req)"
      and "\<not> now - (case Map_get (requestTimes s) (case sessionId req of None \<Rightarrow> ''default'' | Some x \<Rightarrow> x) of
                      None \<Rightarrow> 0 | Some t \<Rightarrow> t) < 1000"
  shows "\<exists>a u s1. chat_begin i js req now s = (Await a u, s1)
           \<and> Map_get (requestTimes s1) (case sessionId req of None \<Rightarrow> ''default'' | Some x \<Rightarrow> x) = Some now"
proof (cases "Map_get (conversationHistories s) (case sessionId req of None \<Rightarrow> ''default'' | Some x \<Rightarrow> x)")
  case None
  show ?thesis
    unfolding chat_begin_new [OF assms refl None] by (simp add: Map_get_set)
next
  case (Some a)
  show ?thesis
    unfolding chat_begin_old [OF assms refl Some]
    by (simp add: Map_get_set trim_def push_def Let_def)
qed

text \<open>
  C6. A chat request that passes validation and the rate check reaches
  \<^verbatim>\<open>await fetch\<close> with the session's timestamp already set to the current clock; the
  second half of the handler never changes \<^verbatim>\<open>requestTimes\<close>, whatever the upstream
  does, and a rejected request does not change it either. So after an accepted request
  whose upstream call fails, a request of the same session less than 1000 ms later is
  answered with 429.
\<close>

theorem C6_timestamp_on_acceptance:
  "(truthy (message req)
     \<and> \<not> now - (case Map_get (requestTimes s) (case sessionId req of None \<Rightarrow> ''default'' | Some x \<Rightarrow> x) of
                   None \<Rightarrow> 0 | Some t \<Rightarrow> t) < 1000
    \<longrightarrow> (\<exists>a u s1. chat_begin i js req now s = (Await a u, s1)
           \<and> Map_get (requestTimes s1) (case sessionId req of None \<Rightarrow> ''default'' | Some x \<Rightarrow> x) = Some now
           \<and> (\<forall>fr now' req2 now2.
                 truthy (message req2) \<and> sessionId req2 = sessionId req \<and> now2 - now < 1000
                 \<longrightarrow> Map_get (requestTimes (snd (chat_resume i js a fr now' s1)))
                       (case sessionId req of None \<Rightarrow> ''default'' | Some x \<Rightarrow> x) = Some now
                     \<and> (\<exists>e. chat_begin i js req2 now2 (snd (chat_resume i js a fr now' s1)) =
                          (Respond \<lparr>status = 429, body = JObj [(''error'', JStr e)]\<rparr>,
                           snd (chat_resume i js a fr now' s1))))))
   \<and> (\<forall>r s'. chat_begin i js req now s = (Respond r, s') \<longrightarrow> requestTimes s' = requestTimes s)
   \<and> (\<forall>a fr now' r s'. chat_resume i js a fr now' s = (r, s') \<longrightarrow> requestTimes s' = requestTimes s)"
proof (intro conjI impI allI)
  assume acc: "truthy (message req)
     \<and> \<not> now - (case Map_get (requestTimes s) (case sessionId req of None \<Rightarrow> ''default'' | Some x \<Rightarrow> x) of
                   None \<Rightarrow> 0 | Some t \<Rightarrow> t) < 1000"
  let ?sid = "case sessionId req of None \<Rightarrow> ''default'' | Some x \<Rightarrow> x"
  from chat_begin_await [of req now s i js] acc
  obtain a u s1 where b: "chat_begin i js req now s = (Await a u, s1)"
    and t: "Map_get (requestTimes s1) ?sid = Some now" by blast
  have later: "Map_get (requestTimes (snd (chat_resume i js a fr now' s1))) ?sid = Some now
               \<and> (\<exists>e. chat_begin i js req2 now2 (snd (chat_resume i js a fr now' s1)) =
                      (Respond \<lparr>status = 429, body = JObj [(''error'', JStr e)]\<rparr>,
                       snd (chat_resume i js a fr now' s1)))"
    if h: "truthy (message req2) \<and> sessionId req2 = sessionId req \<and> now2 - now < 1000"
    for fr now' req2 now2
  proof -
    obtain r s2 where c: "chat_resume i js a fr now' s1 = (r, s2)"
      by (cases "chat_resume i js a fr now' s1")
    have t2: "Map_get (requestTimes s2) ?sid = Some now"
      using chat_resume_requestTimes [OF c] t by simp
    then have "now2 - (case Map_get (requestTimes s2) (case sessionId req2 of None \<Rightarrow> ''default'' | Some x \<Rightarrow> x) of
                         None \<Rightarrow> 0 | Some t \<Rightarrow> t) < 1000"
      using h by simp
    from chat_begin_limited [OF _ this, of i js] h t2 show ?thesis
      by (simp add: c)
  qed
  show "\<exists>a u s1. chat_begin i js req now s = (Await a u, s1)
           \<and> Map_get (requestTimes s1) ?sid = Some now
           \<and> (\<forall>fr now' req2 now2.
                 truthy (message req2) \<and> sessionId req2 = sessionId req \<and> now2 - now < 1000
                 \<longrightarrow> Map_get (requestTimes (snd (chat_resume i js a fr now' s1))) ?sid = Some now
                     \<and> (\<exists>e. chat_begin i js req2 now2 (snd (chat_resume i js a fr now' s1)) =
                          (Respond \<lparr>status = 429, body = JObj [(''error'', JStr e)]\<rparr>,
                           snd (chat_resume i js a fr now' s1))))"
    using b t later by blast
next
  fix r s' assume "chat_begin i js req now s = (Respond r, s')"
  then show "requestTimes s' = requestTimes s"
    by (cases rule: chat_begin_cases) simp_all
next
  fix a fr now' r s' assume "chat_resume i js a fr now' s = (r, s')"
  then show "requestTimes s' = requestTimes s" by (rule chat_resume_requestTimes)
qed


theorem C6_timestamp_on_acceptance_witness:
  "truthy (message \<lparr>message = JStr ''next'', sessionId = Some ''s2''\<rparr>)
   \<and> (1000 :: int) \<le> 8000 - 7000
   \<and> Map_get (requestTimes (snd (chat_begin Part000 example_js
          \<lparr>message = JStr ''next'', sessionId = Some ''s2''\<rparr> 8000 example_state))) ''s2'' = Some 8000
   \<and> status (fst (chat Part000 example_js \<lparr>message = JStr ''next'', sessionId = Some ''s2''\<rparr> 8000
                      (Response 500 ''{}'') 8100 example_state)) = 500
   \<and> status (fst (chat Part000 example_js \<lparr>message = JStr ''once more'', sessionId = Some ''s2''\<rparr> 8999
                      (Response 200 hello_payload) 9100
                      (snd (chat Part000 example_js \<lparr>message = JStr ''next'', sessionId = Some ''s2''\<rparr> 8000
                              (Response 500 ''{}'') 8100 example_state)))) = 429"
  using C6_timestamp_on_acceptance [where req = "\<lparr>message = JStr ''next'', sessionId = Some ''s2''\<rparr>"
          and s = example_state and now = 8000 and i = Part000 and js = example_js]
  by (simp add: chat_def chat_begin_def part_chat_begin_def chat_resume_def part_chat_resume_def
        Let_def Map_get_def example_state_def part_MIN_REQUEST_INTERVAL_def push_def trim_def
        response_ok_def)

section \<open>Claims about upstream failures and about the two files\<close>

lemma server_resume_not_ok:
  assumes "\<not> response_ok st"
  shows "\<exists>e. server_chat_resume js a (Response st b) now s =
               (\<lparr>status = 500, body = JObj [(''error'', JStr e)]\<rparr>, s)"
  using assms
  by (simp add: server_chat_resume_def server_chat_try_def split: sum.splits)

lemma part_resume_not_ok:
  assumes "\<not> response_ok st"
  shows "part_chat_resume js a (Response st b) now s =
           (\<lparr>status = st, body = JObj [(''error'', JStr b)]\<rparr>, s)"
  using assms by (simp add: part_chat_resume_def)

lemma resume_rejected:
  "chat_resume i js a (Rejected e) now s = (\<lparr>status = 500, body = JObj [(''error'', JStr e)]\<rparr>, s)"
  by (cases i)
     (simp_all add: chat_resume_def server_chat_resume_def server_chat_try_def part_chat_resume_def)

lemma resume_unparsed:
  assumes "response_ok st" and "JSON_parse js b = Inl e"
  shows "chat_resume i js a (Response st b) now s =
           (\<lparr>status = 500, body = JObj [(''error'', JStr e)]\<rparr>, s)"
  using assms
  by (cases i)
     (simp_all add: chat_resume_def server_chat_resume_def server_chat_try_def part_chat_resume_def)

lemma resume_type_error:
  assumes "response_ok st" and "JSON_parse js b = Inr data" and "completion data = Inl e"
  shows "chat_resume i js a (Response st b) now s =
           (\<lparr>status = 500, body = JObj [(''error'', JStr e)]\<rparr>, s)"
  using assms
  by (cases i)
     (simp_all add: chat_resume_def server_chat_resume_def server_chat_try_def part_chat_resume_def)

lemma resume_reply:
  assumes "response_ok st" and "JSON_parse js b = Inr data" and "completion data = Inr c"
      and "truthy c"
  shows "chat_resume i js a (Response st b) now s =
           (\<lparr>status = 200,
             body = JObj [(''reply'', c), (''model'', JStr server_MODEL),
                          (''timestamp'', JStr (toISOString js now))]\<rparr>,
            push a \<lparr>role = ''assistant'', content = c\<rparr> s)"
  using assms
  by (cases i)
     (simp_all add: chat_resume_def server_chat_resume_def server_chat_try_def part_chat_resume_def
        js_or_def part_MODEL_eq)

lemma server_resume_no_text:
  assumes "response_ok st" and "JSON_parse js b = Inr data" and "completion data = Inr c"
      and "\<not> truthy c"
  shows "server_chat_resume js a (Response st b) now s =
           (\<lparr>status = 500, body = JObj [(''error'', JStr ''Invalid response from OpenRouter'')]\<rparr>, s)"
  using assms by (simp add: server_chat_resume_def server_chat_try_def)

lemma part_resume_no_text:
  assumes "response_ok st" and "JSON_parse js b = Inr data" and "completion data = Inr c"
      and "\<not> truthy c"
  shows "part_chat_resume js a (Response st b) now s =
           (\<lparr>status = 200,
             body = JObj [(''reply'', JStr ''No response from model.''), (''model'', JStr part_MODEL),
                          (''timestamp'', JStr (toISOString js now))]\<rparr>,
            push a \<lparr>role = ''assistant'', content = JStr ''No response from model.''\<rparr> s)"
  using assms by (simp add: part_chat_resume_def js_or_def Let_def)

lemma chat_begin_user_last:
  assumes "store_ok i s0" and "chat_begin i js req now s0 = (Await a u, s)"
  shows "transcript s (case sessionId req of None \<Rightarrow> ''default'' | Some x \<Rightarrow> x) = Some (messages u)
         \<and> last (messages u) = \<lparr>role = ''user'', content = message req\<rparr>"
proof -
  note snd = chat_begin_sends [OF assms]
  let ?new = "(case transcript s0 (case sessionId req of None \<Rightarrow> ''default'' | Some x \<Rightarrow> x) of
                 None \<Rightarrow> [system_message i] | Some h \<Rightarrow> h)
              @ [\<lparr>role = ''user'', content = message req\<rparr>]"
  have m: "messages u = (if length ?new \<le> 21 then ?new
                         else system_message i # drop (length ?new - 20) ?new)"
    using snd by simp
  have "last (drop (length ?new - 20) ?new) = last ?new" by (intro last_drop) simp
  then have "last (messages u) = \<lparr>role = ''user'', content = message req\<rparr>"
    unfolding m by (simp del: drop_append)
  then show ?thesis using snd by simp
qed


text \<open>
  C4, as the code has it. When the upstream answers with a non-success status, the caller
  gets an \<^verbatim>\<open>{error: ...}\<close> body with a non-success status and the state stays as the
  first half of the handler left it: no assistant message, and the user message still
  last in the transcript. When the upstream answers with a success status and a payload
  that does not parse or is \<^verbatim>\<open>null\<close>, both files answer 500 and change nothing. When
  the payload parses and its completion text is missing or empty, \<^verbatim>\<open>server.js\<close>
  answers 500 and changes nothing, and \<^verbatim>\<open>part_000\<close> answers 200 with the reply
  \<^verbatim>\<open>No response from model.\<close> and appends it as the assistant message.
\<close>

theorem C4_upstream_failure:
  "(\<not> response_ok st \<longrightarrow>
      (\<exists>r e. chat_resume i js a (Response st b) now s = (r, s)
             \<and> body r = JObj [(''error'', JStr e)] \<and> \<not> response_ok (status r)))
   \<and> (\<forall>data c. response_ok st \<and> JSON_parse js b = Inr data \<and> completion data = Inr c \<and> \<not> truthy c \<longrightarrow>
          chat_resume ServerJs js a (Response st b) now s =
            (\<lparr>status = 500, body = JObj [(''error'', JStr ''Invalid response from OpenRouter'')]\<rparr>, s)
          \<and> chat_resume Part000 js a (Response st b) now s =
            (\<lparr>status = 200,
              body = JObj [(''reply'', JStr ''No response from model.''), (''model'', JStr part_MODEL),
                           (''timestamp'', JStr (toISOString js now))]\<rparr>,
             push a \<lparr>role = ''assistant'', content = JStr ''No response from model.''\<rparr> s))
   \<and> (\<forall>data e. response_ok st
          \<and> (JSON_parse js b = Inl e \<or> JSON_parse js b = Inr data \<and> completion data = Inl e) \<longrightarrow>
          chat_resume i js a (Response st b) now s =
            (\<lparr>status = 500, body = JObj [(''error'', JStr e)]\<rparr>, s))
   \<and> (\<forall>s0 req now0 u. store_ok i s0 \<and> chat_begin i js req now0 s0 = (Await a u, s) \<longrightarrow>
          transcript s (case sessionId req of None \<Rightarrow> ''default'' | Some x \<Rightarrow> x) = Some (messages u)
          \<and> last (messages u) = \<lparr>role = ''user'', content = message req\<rparr>)"
proof (intro conjI impI allI)
  assume n: "\<not> response_ok st"
  show "\<exists>r e. chat_resume i js a (Response st b) now s = (r, s)
             \<and> body r = JObj [(''error'', JStr e)] \<and> \<not> response_ok (status r)"
  proof (cases i)
    case ServerJs
    obtain e where "server_chat_resume js a (Response st b) now s =
               (\<lparr>status = 500, body = JObj [(''error'', JStr e)]\<rparr>, s)"
      using server_resume_not_ok [OF n] by blast
    then show ?thesis using ServerJs by (simp add: chat_resume_def response_ok_def)
  next
    case Part000
    then show ?thesis using part_resume_not_ok [OF n] n by (simp add: chat_resume_def)
  qed
next
  fix data c
  assume h: "response_ok st \<and> JSON_parse js b = Inr data \<and> completion data = Inr c \<and> \<not> truthy c"
  show "chat_resume ServerJs js a (Response st b) now s =
            (\<lparr>status = 500, body = JObj [(''error'', JStr ''Invalid response from OpenRouter'')]\<rparr>, s)"
    using h server_resume_no_text [of st js b data c] by (simp add: chat_resume_def)
  show "chat_resume Part000 js a (Response st b) now s =
            (\<lparr>status = 200,
              body = JObj [(''reply'', JStr ''No response from model.''), (''model'', JStr part_MODEL),
                           (''timestamp'', JStr (toISOString js now))]\<rparr>,
             push a \<lparr>role = ''assistant'', content = JStr ''No response from model.''\<rparr> s)"
    using h part_resume_no_text [of st js b data c] by (simp add: chat_resume_def)
next
  fix data e
  assume "response_ok st
          \<and> (JSON_parse js b = Inl e \<or> JSON_parse js b = Inr data \<and> completion data = Inl e)"
  then show "chat_resume i js a (Response st b) now s =
            (\<lparr>status = 500, body = JObj [(''error'', JStr e)]\<rparr>, s)"
    using resume_unparsed resume_type_error by blast
next
  fix s0 req now0 u
  assume h: "store_ok i s0 \<and> chat_begin i js req now0 s0 = (Await a u, s)"
  then have "transcript s (case sessionId req of None \<Rightarrow> ''default'' | Some x \<Rightarrow> x) = Some (messages u)
          \<and> last (messages u) = \<lparr>role = ''user'', content = message req\<rparr>"
    using chat_begin_user_last by blast
  then show "transcript s (case sessionId req of None \<Rightarrow> ''default'' | Some x \<Rightarrow> x) = Some (messages u)"
    and "last (messages u) = \<lparr>role = ''user'', content = message req\<rparr>" by simp_all
qed

theorem C4_upstream_failure_witness:
  "\<not> response_ok 503
   \<and> chat_resume Part000 example_js 0 (Response 503 ''{}'') 7100 example_state =
       (\<lparr>status = 503, body = JObj [(''error'', JStr ''{}'')]\<rparr>, example_state)
   \<and> response_ok 200 \<and> JSON_parse example_js ''{}'' = Inr (JObj [])
   \<and> completion (JObj []) = Inr JUndefined
   \<and> chat_resume ServerJs example_js 0 (Response 200 ''{}'') 7100 example_state =
       (\<lparr>status = 500, body = JObj [(''error'', JStr ''Invalid response from OpenRouter'')]\<rparr>,
        example_state)
   \<and> JSON_parse example_js ''<html>'' = Inl ''Unexpected token''
   \<and> chat_resume Part000 example_js 0 (Response 200 ''<html>'') 7100 example_state =
       (\<lparr>status = 500, body = JObj [(''error'', JStr ''Unexpected token'')]\<rparr>, example_state)
   \<and> store_ok Part000 init
   \<and> chat_begin Part000 example_js \<lparr>message = JStr ''hi'', sessionId = Some ''s2''\<rparr> 7000 init =
       (Await 0 \<lparr>model = part_MODEL,
                 messages = [system_message Part000, \<lparr>role = ''user'', content = JStr ''hi''\<rparr>]\<rparr>,
        example_state)
   \<and> transcript example_state ''s2'' =
       Some [system_message Part000, \<lparr>role = ''user'', content = JStr ''hi''\<rparr>]"
  using C4_upstream_failure [where i = Part000 and js = example_js and a = 0 and st = 503
          and b = "''{}''" and now = 7100 and s = example_state]
        C4_upstream_failure [where i = Part000 and js = example_js and a = 0 and st = 200
          and b = "''{}''" and now = 7100 and s = example_state]
        C4_upstream_failure [where i = Part000 and js = example_js and a = 0 and st = 200
          and b = "''<html>''" and now = 7100 and s = example_state]
  by (simp add: chat_resume_def part_chat_resume_def server_chat_resume_def server_chat_try_def
        example_js_def example_state_def response_ok_def completion_def hello_payload_def
        store_ok_def init_def chat_begin_def part_chat_begin_def Let_def Map_get_def
        part_MIN_REQUEST_INTERVAL_def push_def trim_def transcript_def system_message_def
        SYSTEM_PROMPT_def)

text \<open>
  C4 as stated fails in \<^verbatim>\<open>part_000\<close>: the upstream answers 200 with the payload
  \<^verbatim>\<open>{}\<close>, which has no completion text, and the caller gets a 200 reply while an
  assistant message is appended to the transcript.
\<close>

theorem C4_counterexample:
  "completion (JObj []) = Inr JUndefined
   \<and> status (fst (chat_resume Part000 example_js 0 (Response 200 ''{}'') 7100 example_state)) = 200
   \<and> transcript (snd (chat_resume Part000 example_js 0 (Response 200 ''{}'') 7100 example_state)) ''s2'' =
       Some [system_message Part000, \<lparr>role = ''user'', content = JStr ''hi''\<rparr>,
             \<lparr>role = ''assistant'', content = JStr ''No response from model.''\<rparr>]"
  by (simp add: chat_resume_def part_chat_resume_def example_js_def example_state_def response_ok_def
        completion_def js_or_def Let_def push_def transcript_def Map_get_def hello_payload_def)

text \<open>
  C5, as the code has it. When the upstream answers with a non-success status,
  \<^verbatim>\<open>part_000\<close> answers with that status and \<^verbatim>\<open>{error: <upstream body text>}\<close>, and
  \<^verbatim>\<open>server.js\<close> answers with 500 and \<^verbatim>\<open>{error: message}\<close>; when the upstream call is
  rejected, so that there is no upstream status, both answer 500 with
  \<^verbatim>\<open>{error: message}\<close>. The state is unchanged in each case.
\<close>

theorem C5_upstream_status:
  "(\<not> response_ok st \<longrightarrow>
      chat_resume Part000 js a (Response st b) now s =
        (\<lparr>status = st, body = JObj [(''error'', JStr b)]\<rparr>, s)
      \<and> (\<exists>e. chat_resume ServerJs js a (Response st b) now s =
               (\<lparr>status = 500, body = JObj [(''error'', JStr e)]\<rparr>, s)))
   \<and> chat_resume i js a (Rejected e) now s = (\<lparr>status = 500, body = JObj [(''error'', JStr e)]\<rparr>, s)"
  using part_resume_not_ok [of st js a b now s] server_resume_not_ok [of st js a b now s]
        resume_rejected [of i js a e now s]
  by (simp add: chat_resume_def)

theorem C5_upstream_status_witness:
  "\<not> response_ok 404
   \<and> chat_resume Part000 example_js 0 (Response 404 ''{}'') 7100 example_state =
       (\<lparr>status = 404, body = JObj [(''error'', JStr ''{}'')]\<rparr>, example_state)
   \<and> chat_resume ServerJs example_js 0 (Rejected ''socket hang up'') 1500 after_one_exchange =
       (\<lparr>status = 500, body = JObj [(''error'', JStr ''socket hang up'')]\<rparr>, after_one_exchange)"
  using C5_upstream_status [where st = 404 and js = example_js and a = 0 and b = "''{}''"
          and now = 7100 and s = example_state and i = Part000]
        C5_upstream_status [where st = 404 and js = example_js and a = 0 and b = "''{}''"
          and now = 1500 and s = after_one_exchange and i = ServerJs and e = "''socket hang up''"]
  by (simp add: response_ok_def)

text \<open>
  C5 as stated fails in \<^verbatim>\<open>server.js\<close>: the upstream answers the first request of a
  session with 404 and the caller gets 500.
\<close>

theorem C5_counterexample:
  "fst (chat ServerJs example_js \<lparr>message = JStr ''hi'', sessionId = None\<rparr> 1000
          (Response 404 ''{}'') 1500 init) =
     \<lparr>status = 500, body = JObj [(''error'', JStr ''Unknown error'')]\<rparr>"
  by (simp add: chat_def chat_begin_def server_chat_begin_def chat_resume_def
        server_chat_resume_def server_chat_try_def Let_def Map_get_def init_def
        server_MIN_REQUEST_INTERVAL_def response_ok_def example_js_def hello_payload_def
        js_or_def push_def trim_def)


lemma health_fields:
  "status (server_health key) = status (part_health key)
   \<and> opt_member (body (server_health key)) ''status'' = opt_member (body (part_health key)) ''status''
   \<and> opt_member (body (server_health key)) ''openrouterConfigured'' =
       opt_member (body (part_health key)) ''openrouterConfigured''
   \<and> opt_member (body (server_health key)) ''model'' = opt_member (body (part_health key)) ''model''
   \<and> opt_member (body (server_health key)) ''apiKey'' =
       opt_member (body (part_health key)) ''apiKeyPrefix''"
  by (simp add: server_health_def part_health_def part_MODEL_eq)

lemma begin_same_old:
  assumes "Map_get (conversationHistories s) (case sessionId req of None \<Rightarrow> ''default'' | Some x \<Rightarrow> x) \<noteq> None"
      and "\<not> now - (case Map_get (requestTimes s) (case sessionId req of None \<Rightarrow> ''default'' | Some x \<Rightarrow> x) of
                      None \<Rightarrow> 0 | Some t \<Rightarrow> t) < 1000"
  shows "server_chat_begin js req now s = part_chat_begin req now s"
proof (cases "truthy (message req)")
  case False
  then show ?thesis
    using chat_begin_invalid [of req ServerJs js now s] chat_begin_invalid [of req Part000 js now s]
    by (simp add: chat_begin_def)
next
  case True
  obtain a where a: "Map_get (conversationHistories s) (case sessionId req of None \<Rightarrow> ''default'' | Some x \<Rightarrow> x) = Some a"
    using assms(1) by blast
  show ?thesis
    using chat_begin_old [OF True assms(2) refl a, of ServerJs js]
          chat_begin_old [OF True assms(2) refl a, of Part000 js]
    by (simp add: chat_begin_def)
qed


lemma resume_same:
  assumes "response_ok st"
      and "\<forall>data c. JSON_parse js b = Inr data \<and> completion data = Inr c \<longrightarrow> truthy c"
  shows "server_chat_resume js a (Response st b) now s = part_chat_resume js a (Response st b) now s"
proof (cases "JSON_parse js b")
  case (Inl e)
  then show ?thesis
    using resume_unparsed [OF assms(1) Inl, of ServerJs a now s]
          resume_unparsed [OF assms(1) Inl, of Part000 a now s]
    by (simp add: chat_resume_def)
next
  case (Inr data)
  show ?thesis
  proof (cases "completion data")
    case (Inl e)
    then show ?thesis
      using resume_type_error [OF assms(1) Inr Inl, of ServerJs a now s]
            resume_type_error [OF assms(1) Inr Inl, of Part000 a now s]
      by (simp add: chat_resume_def)
  next
    case c: (Inr c)
    then have "truthy c" using assms(2) Inr by blast
    then show ?thesis
      using resume_reply [OF assms(1) Inr c, of ServerJs a now s]
            resume_reply [OF assms(1) Inr c, of Part000 a now s]
      by (simp add: chat_resume_def)
  qed
qed

text \<open>
  C3, as the code has it. The two files have the same clear handler, test-key handler and
  reaper. Their chat handlers agree on a request without a message (400), answer a
  rate-limited request with 429 and an \<^verbatim>\<open>{error: ...}\<close> body and leave the state
  alone, and do the same to the state when they accept a request, but for the text of
  the system prompt a new transcript is seeded with. After the upstream call they agree
  when the call is rejected and when it answers with a success status and a payload that
  does not parse, is \<^verbatim>\<open>null\<close>, or has a completion text. They differ on a non-success
  status (500 in \<^verbatim>\<open>server.js\<close>, the upstream's status in \<^verbatim>\<open>part_000\<close>) and on a
  success payload without a completion text (\<^verbatim>\<open>server.js\<close> answers 500 and appends
  nothing, \<^verbatim>\<open>part_000\<close> answers 200 with a fixed reply and appends it). The health
  bodies agree on the status, the model and the configured flag; the key prefix is
  \<^verbatim>\<open>apiKey\<close> in \<^verbatim>\<open>server.js\<close> and \<^verbatim>\<open>apiKeyPrefix\<close> in \<^verbatim>\<open>part_000\<close>, which adds a
  \<^verbatim>\<open>message\<close> field.
\<close>

theorem C3_files_agree:
  "server_clear = part_clear
   \<and> server_test_key = part_test_key
   \<and> server_reaper = part_reaper
   \<and> (\<not> truthy (message req) \<longrightarrow>
        server_chat_begin js req now s =
          (Respond \<lparr>status = 400, body = JObj [(''error'', JStr ''Message is required'')]\<rparr>, s)
        \<and> part_chat_begin req now s =
          (Respond \<lparr>status = 400, body = JObj [(''error'', JStr ''Message is required'')]\<rparr>, s))
   \<and> (truthy (message req)
        \<and> now - (case Map_get (requestTimes s) (case sessionId req of None \<Rightarrow> ''default'' | Some x \<Rightarrow> x) of
                     None \<Rightarrow> 0 | Some t \<Rightarrow> t) < 1000 \<longrightarrow>
        (\<exists>e e'. server_chat_begin js req now s =
                   (Respond \<lparr>status = 429, body = JObj [(''error'', JStr e)]\<rparr>, s)
               \<and> part_chat_begin req now s =
                   (Respond \<lparr>status = 429, body = JObj [(''error'', JStr e')]\<rparr>, s)))
   \<and> (Map_get (conversationHistories s) (case sessionId req of None \<Rightarrow> ''default'' | Some x \<Rightarrow> x) \<noteq> None
        \<and> \<not> now - (case Map_get (requestTimes s) (case sessionId req of None \<Rightarrow> ''default'' | Some x \<Rightarrow> x) of
                       None \<Rightarrow> 0 | Some t \<Rightarrow> t) < 1000 \<longrightarrow>
        server_chat_begin js req now s = part_chat_begin req now s)
   \<and> (truthy (message req)
        \<and> Map_get (conversationHistories s) (case sessionId req of None \<Rightarrow> ''default'' | Some x \<Rightarrow> x) = None
        \<and> \<not> now - (case Map_get (requestTimes s) (case sessionId req of None \<Rightarrow> ''default'' | Some x \<Rightarrow> x) of
                       None \<Rightarrow> 0 | Some t \<Rightarrow> t) < 1000 \<longrightarrow>
        (\<forall>i. chat_begin i js req now s =
           (Await (length (arrays s))
              \<lparr>model = server_MODEL,
               messages = [\<lparr>role = ''system'', content = JStr (SYSTEM_PROMPT i)\<rparr>,
                           \<lparr>role = ''user'', content = message req\<rparr>]\<rparr>,
            s\<lparr>requestTimes :=
                Map_set (case sessionId req of None \<Rightarrow> ''default'' | Some x \<Rightarrow> x) now (requestTimes s),
              arrays := arrays s @ [[\<lparr>role = ''system'', content = JStr (SYSTEM_PROMPT i)\<rparr>,
                                     \<lparr>role = ''user'', content = message req\<rparr>]],
              conversationHistories :=
                Map_set (case sessionId req of None \<Rightarrow> ''default'' | Some x \<Rightarrow> x) (length (arrays s))
                  (conversationHistories s)\<rparr>)))
   \<and> server_chat_resume js a (Rejected e) now' s = part_chat_resume js a (Rejected e) now' s
   \<and> (response_ok st
        \<and> (\<forall>data c. JSON_parse js b = Inr data \<and> completion data = Inr c \<longrightarrow> truthy c) \<longrightarrow>
        server_chat_resume js a (Response st b) now' s = part_chat_resume js a (Response st b) now' s)
   \<and> (\<not> response_ok st \<longrightarrow>
        status (fst (server_chat_resume js a (Response st b) now' s)) = 500
        \<and> status (fst (part_chat_resume js a (Response st b) now' s)) = st)
   \<and> (\<forall>data c. response_ok st \<and> JSON_parse js b = Inr data \<and> completion data = Inr c \<and> \<not> truthy c \<longrightarrow>
        server_chat_resume js a (Response st b) now' s =
          (\<lparr>status = 500, body = JObj [(''error'', JStr ''Invalid response from OpenRouter'')]\<rparr>, s)
        \<and> part_chat_resume js a (Response st b) now' s =
          (\<lparr>status = 200,
            body = JObj [(''reply'', JStr ''No response from model.''), (''model'', JStr part_MODEL),
                         (''timestamp'', JStr (toISOString js now'))]\<rparr>,
           push a \<lparr>role = ''assistant'', content = JStr ''No response from model.''\<rparr> s))
   \<and> status (server_health key) = status (part_health key)
   \<and> opt_member (body (server_health key)) ''status'' = opt_member (body (part_health key)) ''status''
   \<and> opt_member (body (server_health key)) ''openrouterConfigured'' =
       opt_member (body (part_health key)) ''openrouterConfigured''
   \<and> opt_member (body (server_health key)) ''model'' = opt_member (body (part_health key)) ''model''
   \<and> opt_member (body (server_health key)) ''apiKey'' =
       opt_member (body (part_health key)) ''apiKeyPrefix''
   \<and> opt_member (body (server_health key)) ''apiKeyPrefix'' = JUndefined
   \<and> opt_member (body (part_health key)) ''apiKey'' = JUndefined
   \<and> opt_member (body (server_health key)) ''message'' = JUndefined
   \<and> opt_member (body (part_health key)) ''message'' = JStr ''Chatbot is running''"
proof -
  let ?sid = "case sessionId req of None \<Rightarrow> ''default'' | Some x \<Rightarrow> x"
  let ?last = "case Map_get (requestTimes s) ?sid of None \<Rightarrow> 0 | Some t \<Rightarrow> t"
  have 1: "server_clear = part_clear"
    by (intro ext) (simp add: server_clear_def part_clear_def)
  have 2: "server_test_key = part_test_key"
    by (intro ext) (simp add: server_test_key_def part_test_key_def)
  have 3: "server_reaper = part_reaper"
    by (intro ext) (simp add: server_reaper_def part_reaper_def)
  have 4: "\<not> truthy (message req) \<longrightarrow>
        server_chat_begin js req now s =
          (Respond \<lparr>status = 400, body = JObj [(''error'', JStr ''Message is required'')]\<rparr>, s)
        \<and> part_chat_begin req now s =
          (Respond \<lparr>status = 400, body = JObj [(''error'', JStr ''Message is required'')]\<rparr>, s)"
    by (simp add: server_chat_begin_def part_chat_begin_def)
  have 5: "truthy (message req) \<and> now - ?last < 1000 \<longrightarrow>
        (\<exists>e e'. server_chat_begin js req now s =
                   (Respond \<lparr>status = 429, body = JObj [(''error'', JStr e)]\<rparr>, s)
               \<and> part_chat_begin req now s =
                   (Respond \<lparr>status = 429, body = JObj [(''error'', JStr e')]\<rparr>, s))"
    using chat_begin_limited [of req now s ServerJs js] chat_begin_limited [of req now s Part000 js]
    by (simp add: chat_begin_def)
  have 6: "Map_get (conversationHistories s) ?sid \<noteq> None \<and> \<not> now - ?last < 1000 \<longrightarrow>
        server_chat_begin js req now s = part_chat_begin req now s"
    using begin_same_old by blast
  have 7: "truthy (message req) \<and> Map_get (conversationHistories s) ?sid = None
        \<and> \<not> now - ?last < 1000 \<longrightarrow>
        (\<forall>i. chat_begin i js req now s =
           (Await (length (arrays s))
              \<lparr>model = server_MODEL,
               messages = [\<lparr>role = ''system'', content = JStr (SYSTEM_PROMPT i)\<rparr>,
                           \<lparr>role = ''user'', content = message req\<rparr>]\<rparr>,
            s\<lparr>requestTimes := Map_set ?sid now (requestTimes s),
              arrays := arrays s @ [[\<lparr>role = ''system'', content = JStr (SYSTEM_PROMPT i)\<rparr>,
                                     \<lparr>role = ''user'', content = message req\<rparr>]],
              conversationHistories := Map_set ?sid (length (arrays s)) (conversationHistories s)\<rparr>))"
    using chat_begin_new [of req now s ?sid _ js] by blast
  have 8: "server_chat_resume js a (Rejected e) now' s = part_chat_resume js a (Rejected e) now' s"
    using resume_rejected [of ServerJs js a e now' s] resume_rejected [of Part000 js a e now' s]
    by (simp add: chat_resume_def)
  have 9: "response_ok st
        \<and> (\<forall>data c. JSON_parse js b = Inr data \<and> completion data = Inr c \<longrightarrow> truthy c) \<longrightarrow>
        server_chat_resume js a (Response st b) now' s = part_chat_resume js a (Response st b) now' s"
    using resume_same by blast
  have 10: "\<not> response_ok st \<longrightarrow>
        status (fst (server_chat_resume js a (Response st b) now' s)) = 500
        \<and> status (fst (part_chat_resume js a (Response st b) now' s)) = st"
    using server_resume_not_ok [of st js a b now' s] part_resume_not_ok [of st js a b now' s]
    by auto
  have 11: "\<forall>data c. response_ok st \<and> JSON_parse js b = Inr data \<and> completion data = Inr c \<and> \<not> truthy c \<longrightarrow>
        server_chat_resume js a (Response st b) now' s =
          (\<lparr>status = 500, body = JObj [(''error'', JStr ''Invalid response from OpenRouter'')]\<rparr>, s)
        \<and> part_chat_resume js a (Response st b) now' s =
          (\<lparr>status = 200,
            body = JObj [(''reply'', JStr ''No response from model.''), (''model'', JStr part_MODEL),
                         (''timestamp'', JStr (toISOString js now'))]\<rparr>,
           push a \<lparr>role = ''assistant'', content = JStr ''No response from model.''\<rparr> s)"
    using server_resume_no_text [of st js b _ _ a now' s] part_resume_no_text [of st js b _ _ a now' s]
    by blast
  have 12: "opt_member (body (server_health key)) ''apiKeyPrefix'' = JUndefined
        \<and> opt_member (body (part_health key)) ''apiKey'' = JUndefined
        \<and> opt_member (body (server_health key)) ''message'' = JUndefined
        \<and> opt_member (body (part_health key)) ''message'' = JStr ''Chatbot is running''"
    by (simp add: server_health_def part_health_def)
  show ?thesis
    using 1 2 3 4 5 6 7 8 9 10 11 12 health_fields [of key] by blast
qed

theorem C3_files_agree_witness:
  "\<not> truthy (message \<lparr>message = JUndefined, sessionId = None\<rparr>)
   \<and> server_chat_begin example_js \<lparr>message = JUndefined, sessionId = None\<rparr> 9000 example_state =
       part_chat_begin \<lparr>message = JUndefined, sessionId = None\<rparr> 9000 example_state
   \<and> response_ok 200
   \<and> server_chat_resume example_js 0 (Response 200 hello_payload) 9100 example_state =
       part_chat_resume example_js 0 (Response 200 hello_payload) 9100 example_state
   \<and> \<not> response_ok 503
   \<and> status (fst (server_chat_resume example_js 0 (Response 503 ''{}'') 9100 example_state)) = 500
   \<and> status (fst (part_chat_resume example_js 0 (Response 503 ''{}'') 9100 example_state)) = 503
   \<and> JSON_parse example_js ''{}'' = Inr (JObj [])
   \<and> completion (JObj []) = Inr JUndefined
   \<and> \<not> truthy JUndefined
   \<and> status (fst (server_chat_resume example_js 0 (Response 200 ''{}'') 9100 example_state)) = 500
   \<and> status (fst (part_chat_resume example_js 0 (Response 200 ''{}'') 9100 example_state)) = 200"
proof -
  have inv: "\<not> truthy (message \<lparr>message = JUndefined, sessionId = None\<rparr>)" by simp
  have ok: "response_ok 200" and nok: "\<not> response_ok 503" by (simp_all add: response_ok_def)
  have p: "JSON_parse example_js ''{}'' = Inr (JObj [])"
    by (simp add: example_js_def hello_payload_def)
  have c: "completion (JObj []) = Inr JUndefined" by (simp add: completion_def)
  have hello: "\<forall>data c. JSON_parse example_js hello_payload = Inr data \<and> completion data = Inr c
                 \<longrightarrow> truthy c"
    by (auto simp: example_js_def completion_def)
  note t1 = C3_files_agree [where req = "\<lparr>message = JUndefined, sessionId = None\<rparr>" and js = example_js
          and now = 9000 and s = example_state and st = 200 and b = hello_payload and a = 0 and now' = 9100]
  note t2 = C3_files_agree [where req = "\<lparr>message = JUndefined, sessionId = None\<rparr>" and js = example_js
          and now = 9000 and s = example_state and st = 503 and b = "''{}''" and a = 0 and now' = 9100]
  note t3 = C3_files_agree [where req = "\<lparr>message = JUndefined, sessionId = None\<rparr>" and js = example_js
          and now = 9000 and s = example_state and st = 200 and b = "''{}''" and a = 0 and now' = 9100]
  have 1: "server_chat_begin example_js \<lparr>message = JUndefined, sessionId = None\<rparr> 9000 example_state =
       part_chat_begin \<lparr>message = JUndefined, sessionId = None\<rparr> 9000 example_state"
    using t1 inv by metis
  have 2: "server_chat_resume example_js 0 (Response 200 hello_payload) 9100 example_state =
       part_chat_resume example_js 0 (Response 200 hello_payload) 9100 example_state"
    using t1 ok hello by blast
  have 3: "status (fst (server_chat_resume example_js 0 (Response 503 ''{}'') 9100 example_state)) = 500
   \<and> status (fst (part_chat_resume example_js 0 (Response 503 ''{}'') 9100 example_state)) = 503"
    using t2 nok by blast
  have "server_chat_resume example_js 0 (Response 200 ''{}'') 9100 example_state =
          (\<lparr>status = 500, body = JObj [(''error'', JStr ''Invalid response from OpenRouter'')]\<rparr>,
           example_state)
        \<and> part_chat_resume example_js 0 (Response 200 ''{}'') 9100 example_state =
          (\<lparr>status = 200,
            body = JObj [(''reply'', JStr ''No response from model.''), (''model'', JStr part_MODEL),
                         (''timestamp'', JStr (toISOString example_js 9100))]\<rparr>,
           push 0 \<lparr>role = ''assistant'', content = JStr ''No response from model.''\<rparr> example_state)"
    using t3 ok p c by simp
  then have 4: "status (fst (server_chat_resume example_js 0 (Response 200 ''{}'') 9100 example_state)) = 500
   \<and> status (fst (part_chat_resume example_js 0 (Response 200 ''{}'') 9100 example_state)) = 200"
    by simp
  show ?thesis
    using inv ok nok p c 1 2 3 4 by simp
qed

text \<open>
  C3 as stated fails: for the same first request and the same upstream answer, 503, the
  caller gets 500 from \<^verbatim>\<open>server.js\<close> and 503 from \<^verbatim>\<open>part_000\<close>.
\<close>

theorem C3_counterexample:
  "status (fst (chat ServerJs example_js \<lparr>message = JStr ''hi'', sessionId = None\<rparr> 1000
                  (Response 503 ''{}'') 1500 init)) = 500
   \<and> status (fst (chat Part000 example_js \<lparr>message = JStr ''hi'', sessionId = None\<rparr> 1000
                    (Response 503 ''{}'') 1500 init)) = 503"
  by (simp add: chat_def chat_begin_def server_chat_begin_def part_chat_begin_def chat_resume_def
        server_chat_resume_def server_chat_try_def part_chat_resume_def Let_def Map_get_def
        init_def server_MIN_REQUEST_INTERVAL_def part_MIN_REQUEST_INTERVAL_def response_ok_def
        example_js_def hello_payload_def js_or_def push_def trim_def)

end
